theory Spec2Isabelle
  imports Complex_Main "HOL-Library.Multiset"
begin

section \<open>JavaScript values\<close>

text \<open>
  The services validate dynamically typed records, so a record field is a JavaScript
  value. Numbers are modelled as reals (IEEE rounding, NaN and the infinities are left
  out), strings as character lists. An array holds elements of a type \<open>'a\<close> that the
  code treats as structured (controls, module specifications); a plain object is an
  association list from property names to values.
\<close>

datatype 'a jsval =
    JUndefined
  | JNull
  | JBool bool
  | JNum real
  | JStr string
  | JObj "(string \<times> 'a jsval) list"
  | JArr "'a list"

text \<open>What the source throws: a \<open>TypeError\<close> of the runtime, or \<open>new Error(message)\<close>.
  \<open>Unmodelled\<close> marks a coercion of the language that the model does not cover; it is
  shown below to be unreachable from the entry points.\<close>

datatype js_error = TypeError string | Error string | Unmodelled string

text \<open>The \<open>typeof\<close> operator. No value has type \<open>array\<close>: an array is an \<open>object\<close>.\<close>

fun typeof :: "'a jsval \<Rightarrow> string" where
  "typeof JUndefined = ''undefined''"
| "typeof JNull = ''object''"
| "typeof (JBool b) = ''boolean''"
| "typeof (JNum n) = ''number''"
| "typeof (JStr s) = ''string''"
| "typeof (JObj kvs) = ''object''"
| "typeof (JArr xs) = ''object''"

text \<open>Truthiness, and \<open>a || b\<close>.\<close>

fun truthy :: "'a jsval \<Rightarrow> bool" where
  "truthy JUndefined = False"
| "truthy JNull = False"
| "truthy (JBool b) = b"
| "truthy (JNum n) = (n \<noteq> 0)"
| "truthy (JStr s) = (s \<noteq> [])"
| "truthy (JObj kvs) = True"
| "truthy (JArr xs) = True"

definition js_or :: "'a jsval \<Rightarrow> 'a jsval \<Rightarrow> 'a jsval" where
  "js_or a b = (if truthy a then a else b)"

text \<open>Property access \<open>v[key]\<close> for the keys the services read (rail names): it throws
  on \<open>undefined\<close> and \<open>null\<close>, reads an object's property, and yields \<open>undefined\<close>
  on a missing property and on every other kind of value.\<close>

fun getProp :: "'a jsval \<Rightarrow> string \<Rightarrow> js_error + 'a jsval" where
  "getProp JUndefined key =
     Inl (TypeError (''Cannot read properties of undefined (reading '' @ key @ '')''))"
| "getProp JNull key =
     Inl (TypeError (''Cannot read properties of null (reading '' @ key @ '')''))"
| "getProp (JObj kvs) key = Inr (case map_of kvs key of None \<Rightarrow> JUndefined | Some v \<Rightarrow> v)"
| "getProp v key = Inr JUndefined"

text \<open>\<open>value < bound\<close> and \<open>value > bound\<close> against a numeric bound. Both are reached
  only behind a passed \<open>typeof value === 'number'\<close> check (lemma \<open>bounds_only_on_numbers\<close>),
  so the coercion of other values is not modelled.\<close>

definition js_lt :: "'a jsval \<Rightarrow> real \<Rightarrow> bool" where
  "js_lt v bound = (case v of JNum n \<Rightarrow> n < bound | _ \<Rightarrow> False)"

definition js_gt :: "'a jsval \<Rightarrow> real \<Rightarrow> bool" where
  "js_gt v bound = (case v of JNum n \<Rightarrow> n > bound | _ \<Rightarrow> False)"

text \<open>\<open>Math.round\<close>: the nearest integer, a tie going up.\<close>

definition mathRound :: "real \<Rightarrow> real" where
  "mathRound v = of_int \<lfloor>v + 1 / 2\<rfloor>"

text \<open>\<open>String.prototype.trim\<close> over one-byte characters: tab, line feed, vertical tab,
  form feed, carriage return, space and no-break space are white space.\<close>

definition isWhiteSpace :: "char \<Rightarrow> bool" where
  "isWhiteSpace c = (c \<in> set [CHR 0x09, CHR 0x0A, CHR 0x0B, CHR 0x0C, CHR 0x0D, CHR 0x20, CHR 0xA0])"

definition trim :: "string \<Rightarrow> string" where
  "trim s = rev (dropWhile isWhiteSpace (rev (dropWhile isWhiteSpace s)))"

text \<open>A number in a template literal; the schemas only print natural numbers.\<close>

fun showNat :: "nat \<Rightarrow> string" where
  "showNat n =
     (if n < 10 then [''0123456789'' ! n]
      else showNat (n div 10) @ [''0123456789'' ! (n mod 10)])"

declare showNat.simps [simp del]

text \<open>\<open>array.join(', ')\<close>.\<close>

fun joinComma :: "string list \<Rightarrow> string" where
  "joinComma [] = []"
| "joinComma [s] = s"
| "joinComma (s # t # ss) = s @ '', '' @ joinComma (t # ss)"

text \<open>\<open>list.forEach(f)\<close> where \<open>f\<close> updates an accumulator and may throw: the first
  exception leaves the loop.\<close>

fun forEachE :: "('k \<Rightarrow> 's \<Rightarrow> 'e + 's) \<Rightarrow> 'k list \<Rightarrow> 's \<Rightarrow> 'e + 's" where
  "forEachE f [] s = Inr s"
| "forEachE f (k # ks) s = (case f k s of Inl e \<Rightarrow> Inl e | Inr s' \<Rightarrow> forEachE f ks s')"

section \<open>ErrorService\<close>

text \<open>\<open>handleError\<close> logs the message with its context, notifies the registered
  handlers and shows a notification. Its effect is kept as a log of (context, error)
  entries, the only state a service call leaves behind when it fails.\<close>

type_synonym error_log = "(string \<times> js_error) list"

definition handleError :: "js_error \<Rightarrow> string \<Rightarrow> error_log \<Rightarrow> error_log" where
  "handleError e ctxt elog = elog @ [(ctxt, e)]"

section \<open>ModuleDesignService: data\<close>

record control =
  ctl_type :: string
  ctl_x :: real
  ctl_y :: real
  ctl_label :: string
  ctl_id :: nat

datatype image_ref = ImageRef string

type_synonym mval = "control jsval"

text \<open>A raw module specification as a caller passes it. Every property is optional and
  of any type; \<open>spec_hpWidth\<close> and \<open>spec_volumeCm3\<close> are values a caller may supply for
  the derived properties.\<close>

record module_spec =
  spec_name :: mval
  spec_width :: mval
  spec_height :: mval
  spec_depth :: mval
  spec_powerDraw :: mval
  spec_controls :: mval
  spec_images :: "image_ref jsval"
  spec_hpWidth :: mval
  spec_volumeCm3 :: mval

text \<open>\<open>moduleSpec[key]\<close> for the keys of the schema and the derived properties.\<close>

definition moduleField :: "module_spec \<Rightarrow> string \<Rightarrow> mval" where
  "moduleField moduleSpec key =
     (if key = ''name'' then spec_name moduleSpec
      else if key = ''width'' then spec_width moduleSpec
      else if key = ''height'' then spec_height moduleSpec
      else if key = ''depth'' then spec_depth moduleSpec
      else if key = ''powerDraw'' then spec_powerDraw moduleSpec
      else if key = ''controls'' then spec_controls moduleSpec
      else if key = ''hpWidth'' then spec_hpWidth moduleSpec
      else if key = ''volumeCm3'' then spec_volumeCm3 moduleSpec
      else JUndefined)"

text \<open>A module as \<open>createModule\<close> returns it. \<open>_normalizeModuleSpec\<close> builds the object
  without the derived properties (\<open>None\<close>); \<open>createModule\<close> assigns them.\<close>

record module =
  m_name :: string
  m_width :: real
  m_height :: real
  m_depth :: real
  m_powerDraw :: "(string \<times> mval) list"
  m_controls :: mval
  m_images :: "image_ref jsval"
  m_hpWidth :: "real option"
  m_volumeCm3 :: "real option"

record validation_result =
  isValid :: bool
  errors :: "string list"

text \<open>One entry of a validation schema; an absent rule is \<open>None\<close> (\<open>required\<close>: false).\<close>

record 'a field_schema =
  required :: bool
  ftype :: "string option"
  fmin :: "nat option"
  fmax :: "nat option"
  minLength :: "nat option"
  maxLength :: "nat option"
  validator :: "('a jsval \<Rightarrow> js_error + validation_result) option"

definition hpUnit :: real where
  "hpUnit = 5.08"

definition standardHeight :: real where
  "standardHeight = 128.5"

definition powerConnectors :: "string list" where
  "powerConnectors = [''+12V'', ''-12V'', ''+5V'']"

section \<open>ModuleDesignService: validation\<close>

text \<open>The body of the \<open>forEach\<close> of \<open>_validatePowerDraw\<close> for one rail.\<close>

definition checkRail :: "'a jsval \<Rightarrow> string \<Rightarrow> string list \<Rightarrow> js_error + string list" where
  "checkRail powerDraw rail errs =
     (case getProp powerDraw rail of
        Inl e \<Rightarrow> Inl e
      | Inr v \<Rightarrow>
          (let draw = js_or v (JNum 0) in
           if typeof draw \<noteq> ''number''
           then Inr (errs @ [''Power draw for '' @ rail @ '' must be a number''])
           else
             (let errs1 = (if js_lt draw 0
                           then errs @ [''Power draw for '' @ rail @ '' cannot be negative'']
                           else errs);
                  errs2 = (if js_gt draw 500
                           then errs1 @ [''Power draw for '' @ rail @ '' cannot exceed ''
                                          @ showNat 500 @ ''mA'']
                           else errs1)
              in Inr errs2)))"

definition validatePowerDraw :: "'a jsval \<Rightarrow> js_error + validation_result" where
  "validatePowerDraw powerDraw =
     (case forEachE (checkRail powerDraw) powerConnectors [] of
        Inl e \<Rightarrow> Inl e
      | Inr errs \<Rightarrow> Inr \<lparr>isValid = (length errs = 0), errors = errs\<rparr>)"

definition moduleSchema :: "(string \<times> control field_schema) list" where
  "moduleSchema =
     [(''name'', \<lparr>required = True, ftype = Some ''string'', fmin = None, fmax = None,
                  minLength = Some 1, maxLength = Some 50, validator = None\<rparr>),
      (''width'', \<lparr>required = True, ftype = Some ''number'', fmin = Some 2, fmax = Some 42,
                   minLength = None, maxLength = None, validator = None\<rparr>),
      (''height'', \<lparr>required = True, ftype = Some ''number'', fmin = Some 100, fmax = Some 150,
                    minLength = None, maxLength = None, validator = None\<rparr>),
      (''depth'', \<lparr>required = True, ftype = Some ''number'', fmin = Some 20, fmax = Some 45,
                   minLength = None, maxLength = None, validator = None\<rparr>),
      (''powerDraw'', \<lparr>required = False, ftype = None, fmin = None, fmax = None,
                       minLength = None, maxLength = None,
                       validator = Some validatePowerDraw\<rparr>)]"

text \<open>The body of the \<open>forEach\<close> of \<open>_validateModuleSpec\<close> for one schema entry: required,
  type (both leave the entry on failure), min, max, custom validator. The length rules of
  the schema are not read here.\<close>

definition checkModuleField ::
  "module_spec \<Rightarrow> string \<times> control field_schema \<Rightarrow> string list \<Rightarrow> js_error + string list" where
  "checkModuleField moduleSpec entry errs =
     (let key = fst entry; fieldSchema = snd entry; v = moduleField moduleSpec key in
      if required fieldSchema \<and> (v = JUndefined \<or> v = JNull)
      then Inr (errs @ [key @ '' is required''])
      else if (case ftype fieldSchema of None \<Rightarrow> False | Some t \<Rightarrow> typeof v \<noteq> t)
      then Inr (errs @ [key @ '' must be of type '' @ the (ftype fieldSchema)])
      else
        (let errs1 = (case fmin fieldSchema of
                        None \<Rightarrow> errs
                      | Some lo \<Rightarrow>
                          if js_lt v (real lo)
                          then errs @ [key @ '' must be at least '' @ showNat lo]
                          else errs);
             errs2 = (case fmax fieldSchema of
                        None \<Rightarrow> errs1
                      | Some hi \<Rightarrow>
                          if js_gt v (real hi)
                          then errs1 @ [key @ '' must be at most '' @ showNat hi]
                          else errs1)
         in case validator fieldSchema of
              None \<Rightarrow> Inr errs2
            | Some check \<Rightarrow>
                (case check v of
                   Inl e \<Rightarrow> Inl e
                 | Inr customValidation \<Rightarrow>
                     Inr (if \<not> isValid customValidation
                          then errs2 @ errors customValidation
                          else errs2))))"

definition validateModuleSpec :: "module_spec \<Rightarrow> js_error + validation_result" where
  "validateModuleSpec moduleSpec =
     (case forEachE (checkModuleField moduleSpec) moduleSchema [] of
        Inl e \<Rightarrow> Inl e
      | Inr errs \<Rightarrow> Inr \<lparr>isValid = (length errs = 0), errors = errs\<rparr>)"

section \<open>ModuleDesignService: normalization and creation\<close>

text \<open>\<open>_normalizeModuleSpec\<close>. \<open>name.trim()\<close> throws unless the name is a string;
  \<open>Math.round\<close> of a value that is not a number is a coercion left unmodelled.\<close>

definition normalizeRail :: "mval \<Rightarrow> string \<Rightarrow> js_error + (string \<times> mval)" where
  "normalizeRail powerDraw rail =
     (case getProp powerDraw rail of
        Inl e \<Rightarrow> Inl e
      | Inr v \<Rightarrow> Inr (rail, js_or v (JNum 0)))"

definition normalizePowerDraw :: "mval \<Rightarrow> js_error + (string \<times> mval) list" where
  "normalizePowerDraw powerDraw =
     (if truthy powerDraw
      then
        (case normalizeRail powerDraw ''+12V'' of
           Inl e \<Rightarrow> Inl e
         | Inr r1 \<Rightarrow>
             (case normalizeRail powerDraw ''-12V'' of
                Inl e \<Rightarrow> Inl e
              | Inr r2 \<Rightarrow>
                  (case normalizeRail powerDraw ''+5V'' of
                     Inl e \<Rightarrow> Inl e
                   | Inr r3 \<Rightarrow> Inr [r1, r2, r3])))
      else Inr [(''+12V'', JNum 0), (''-12V'', JNum 0), (''+5V'', JNum 0)])"

definition normalizeModuleSpec :: "module_spec \<Rightarrow> js_error + module" where
  "normalizeModuleSpec moduleSpec =
     (case spec_name moduleSpec of
        JStr name \<Rightarrow>
          (case (spec_width moduleSpec, spec_height moduleSpec, spec_depth moduleSpec) of
             (JNum w, JNum h, JNum d) \<Rightarrow>
               (case normalizePowerDraw (spec_powerDraw moduleSpec) of
                  Inl e \<Rightarrow> Inl e
                | Inr pd \<Rightarrow>
                    Inr \<lparr>m_name = trim name,
                         m_width = mathRound w,
                         m_height = mathRound h,
                         m_depth = mathRound d,
                         m_powerDraw = pd,
                         m_controls = js_or (spec_controls moduleSpec) (JArr []),
                         m_images = js_or (spec_images moduleSpec) (JArr []),
                         m_hpWidth = None,
                         m_volumeCm3 = None\<rparr>)
           | _ \<Rightarrow> Inl (Unmodelled ''Math.round of a value that is not a number''))
      | _ \<Rightarrow> Inl (TypeError ''moduleSpec.name.trim is not a function''))"

definition calculateVolume :: "module \<Rightarrow> real" where
  "calculateVolume m = m_width m * hpUnit * m_height m / 10 * m_depth m / 10"

text \<open>The \<open>try\<close> block of \<open>createModule\<close>, and \<open>createModule\<close> itself: an exception is
  handed to the error service and the result is \<open>null\<close> (\<open>None\<close>).\<close>

definition createModule_try :: "module_spec \<Rightarrow> js_error + module" where
  "createModule_try moduleSpec =
     (case validateModuleSpec moduleSpec of
        Inl e \<Rightarrow> Inl e
      | Inr validationResult \<Rightarrow>
          if \<not> isValid validationResult
          then Inl (Error (''Invalid module specification: ''
                           @ joinComma (errors validationResult)))
          else
            (case normalizeModuleSpec moduleSpec of
               Inl e \<Rightarrow> Inl e
             | Inr normalizedModule \<Rightarrow>
                 (let m1 = normalizedModule\<lparr>m_hpWidth := Some (m_width normalizedModule * hpUnit)\<rparr>;
                      m2 = m1\<lparr>m_volumeCm3 := Some (calculateVolume m1)\<rparr>
                  in Inr m2)))"

definition createModule :: "error_log \<Rightarrow> module_spec \<Rightarrow> module option \<times> error_log" where
  "createModule elog moduleSpec =
     (case createModule_try moduleSpec of
        Inl e \<Rightarrow> (None, handleError e ''Module Design Creation'' elog)
      | Inr m \<Rightarrow> (Some m, elog))"

section \<open>ModuleDesignService: the 3D model\<close>

text \<open>The part of the rendering library the services use: a geometry, a Lambert material
  and a mesh with a position (the origin until \<open>position.set\<close>). A group is the list of
  its children in the order of the \<open>add\<close> calls.\<close>

datatype geometry =
    BoxGeometry real real real
  | CylinderGeometry real real real nat

record material =
  mat_color :: nat
  mat_transparent :: bool
  mat_opacity :: real

definition lambert :: "nat \<Rightarrow> material" where
  "lambert c = \<lparr>mat_color = c, mat_transparent = False, mat_opacity = 1\<rparr>"

record mesh =
  mesh_geometry :: geometry
  mesh_material :: material
  mesh_position :: "real \<times> real \<times> real"

definition newMesh :: "geometry \<Rightarrow> material \<Rightarrow> mesh" where
  "newMesh g mat = \<lparr>mesh_geometry = g, mesh_material = mat, mesh_position = (0, 0, 0)\<rparr>"

text \<open>\<open>_addControlTo3DModel\<close>: the \<open>default\<close> branch of the \<open>switch\<close> returns before
  anything is added.\<close>

definition addControlTo3DModel :: "mesh list \<Rightarrow> control \<Rightarrow> module \<Rightarrow> mesh list" where
  "addControlTo3DModel moduleGroup ctl m =
     (let width = m_width m * hpUnit;
          height = m_height m;
          x = (ctl_x ctl / 100 * width) - (width / 2);
          y = (height / 2) - (ctl_y ctl / 100 * height);
          z = m_depth m / 2 + 1
      in if ctl_type ctl = ''knob''
         then moduleGroup @ [(newMesh (CylinderGeometry 4 4 6 16) (lambert 0x666666))
                               \<lparr>mesh_position := (x, y, z)\<rparr>]
         else if ctl_type ctl = ''jack''
         then moduleGroup @ [(newMesh (CylinderGeometry 3 3 8 16) (lambert 0x000000))
                               \<lparr>mesh_position := (x, y, z)\<rparr>]
         else if ctl_type ctl = ''switch''
         then moduleGroup @ [(newMesh (BoxGeometry 6 12 4) (lambert 0x444444))
                               \<lparr>mesh_position := (x, y, z)\<rparr>]
         else moduleGroup)"

definition panelMesh :: "module \<Rightarrow> mesh" where
  "panelMesh m = newMesh (BoxGeometry (m_width m * hpUnit) (m_height m) 2) (lambert 0x333333)"

text \<open>\<open>create3DModel\<close>: \<open>null\<close> from \<open>createModule\<close> is rethrown and caught; a
  \<open>controls\<close> value that is no array has no \<open>forEach\<close>.\<close>

definition create3DModel :: "error_log \<Rightarrow> module_spec \<Rightarrow> mesh list option \<times> error_log" where
  "create3DModel elog moduleSpec =
     (case createModule elog moduleSpec of
        (None, elog1) \<Rightarrow>
          (None, handleError (Error ''Invalid module specification'')
                   ''3D Module Model Generation'' elog1)
      | (Some m, elog1) \<Rightarrow>
          (case m_controls m of
             JArr cs \<Rightarrow> (Some (foldl (\<lambda>g c. addControlTo3DModel g c m) [panelMesh m] cs), elog1)
           | _ \<Rightarrow>
               (None, handleError (TypeError ''module.controls.forEach is not a function'')
                        ''3D Module Model Generation'' elog1)))"

section \<open>EuroRackApp: the editor's own model builder\<close>

text \<open>The state \<open>createModuleModel\<close> and \<open>addControlToModel\<close> read and write: the module
  being edited, its controls, whether a scene exists, and the current model.\<close>

record app_module =
  am_name :: string
  am_width :: real
  am_height :: real
  am_depth :: real

record app_state =
  app_currentModule :: app_module
  app_controls :: "control list"
  app_scene :: bool
  app_currentModel :: "mesh list option"

definition addControlToModel :: "app_state \<Rightarrow> control \<Rightarrow> real \<Rightarrow> real \<Rightarrow> app_state" where
  "addControlToModel app ctl widthMm heightMm =
     (case app_currentModel app of
        None \<Rightarrow> app
      | Some currentModel \<Rightarrow>
          (let x = (ctl_x ctl / 100) * widthMm - widthMm / 2;
               y = heightMm / 2 - (ctl_y ctl / 100) * heightMm;
               z = am_depth (app_currentModule app) / 2 + 1;
               created =
                 (if ctl_type ctl = ''knob''
                  then Some ((newMesh (CylinderGeometry 4 4 6 16) (lambert 0x666666))
                               \<lparr>mesh_position := (x, y, z)\<rparr>)
                  else if ctl_type ctl = ''jack''
                  then Some ((newMesh (CylinderGeometry 3 3 8 16) (lambert 0x000000))
                               \<lparr>mesh_position := (x, y, z)\<rparr>)
                  else if ctl_type ctl = ''switch''
                  then Some ((newMesh (BoxGeometry 6 12 4) (lambert 0x444444))
                               \<lparr>mesh_position := (x, y, z)\<rparr>)
                  else None)
           in case created of
                None \<Rightarrow> app
              | Some msh \<Rightarrow> app\<lparr>app_currentModel := Some (currentModel @ [msh])\<rparr>))"

definition createModuleModel :: "app_state \<Rightarrow> app_state" where
  "createModuleModel app =
     (if \<not> app_scene app then app
      else
        (let widthMm = am_width (app_currentModule app) * hpUnit;
             heightMm = am_height (app_currentModule app);
             depthMm = am_depth (app_currentModule app);
             panel = (newMesh (BoxGeometry widthMm heightMm 2) (lambert 0x333333))
                       \<lparr>mesh_position := (0, 0, depthMm / 2 - 1)\<rparr>;
             pcb = (newMesh (BoxGeometry (widthMm - 4) (heightMm - 10) 1.6) (lambert 0x0a5d0a))
                     \<lparr>mesh_position := (0, 0, depthMm / 2 - 10)\<rparr>;
             housing = newMesh (BoxGeometry widthMm heightMm depthMm)
                         \<lparr>mat_color = 0x222222, mat_transparent = True, mat_opacity = 0.3\<rparr>;
             app1 = app\<lparr>app_currentModel := Some [panel, pcb, housing]\<rparr>
         in foldl (\<lambda>a c. addControlToModel a c widthMm heightMm) app1 (app_controls app)))"

section \<open>ProjectManagementService: data\<close>

text \<open>A value inside a project: an array holds module specifications, \<open>None\<close> standing
  for a \<open>null\<close> element (\<open>createModule\<close> returns \<open>null\<close> for a rejected module).\<close>

type_synonym pval = "module_spec option jsval"

record rack =
  rack_width :: real
  rack_powerSupply :: pval

record metadata =
  md_createdAt :: real
  md_updatedAt :: real
  md_version :: "real option"

text \<open>A project, as specified by a caller and as stored. An absent \<open>id\<close>, \<open>rack\<close> or
  \<open>metadata\<close> is \<open>None\<close>.\<close>

record project =
  p_id :: "string option"
  p_name :: pval
  p_description :: pval
  p_modules :: pval
  p_rack :: "rack option"
  p_metadata :: "metadata option"

text \<open>The \<open>updates\<close> argument of \<open>updateProject\<close>: each property may be absent (\<open>None\<close>);
  a present property overrides the stored one in \<open>{...project, ...updates}\<close>.\<close>

record project_updates =
  u_id :: "string option"
  u_name :: "pval option"
  u_description :: "pval option"
  u_modules :: "pval option"
  u_rack :: "rack option option"
  u_metadata :: "metadata option option"

text \<open>\<open>projectSpec[key]\<close> for the keys of the schema.\<close>

definition projectField :: "project \<Rightarrow> string \<Rightarrow> pval" where
  "projectField projectSpec key =
     (if key = ''name'' then p_name projectSpec
      else if key = ''description'' then p_description projectSpec
      else if key = ''modules'' then p_modules projectSpec
      else if key = ''rack'' then
        (case p_rack projectSpec of
           None \<Rightarrow> JUndefined
         | Some r \<Rightarrow> JObj [(''width'', JNum (rack_width r)),
                             (''powerSupply'', rack_powerSupply r)])
      else if key = ''metadata'' then
        (case p_metadata projectSpec of
           None \<Rightarrow> JUndefined
         | Some md \<Rightarrow> JObj [(''createdAt'', JNum (md_createdAt md)),
                              (''updatedAt'', JNum (md_updatedAt md)),
                              (''version'', (case md_version md of
                                               None \<Rightarrow> JUndefined
                                             | Some n \<Rightarrow> JNum n))])
      else JUndefined)"

text \<open>The schema. The entries \<open>rack\<close> and \<open>metadata\<close> hold nested schemas, so at the level
  the validator reads (\<open>fieldSchema.required\<close>, \<open>fieldSchema.type\<close>, ...) they declare no
  rule at all.\<close>

definition projectSchema :: "(string \<times> module_spec option field_schema) list" where
  "projectSchema =
     [(''name'', \<lparr>required = True, ftype = Some ''string'', fmin = None, fmax = None,
                  minLength = Some 1, maxLength = Some 100, validator = None\<rparr>),
      (''description'', \<lparr>required = False, ftype = Some ''string'', fmin = None, fmax = None,
                         minLength = None, maxLength = Some 500, validator = None\<rparr>),
      (''modules'', \<lparr>required = True, ftype = Some ''array'', fmin = None, fmax = None,
                     minLength = Some 1, maxLength = None, validator = None\<rparr>),
      (''rack'', \<lparr>required = False, ftype = None, fmin = None, fmax = None,
                  minLength = None, maxLength = None, validator = None\<rparr>),
      (''metadata'', \<lparr>required = False, ftype = None, fmin = None, fmax = None,
                      minLength = None, maxLength = None, validator = None\<rparr>)]"

section \<open>ProjectManagementService: validation\<close>

text \<open>\<open>value.length\<close>: throws on \<open>undefined\<close> and \<open>null\<close>; a value without a length
  gives \<open>undefined\<close> (\<open>None\<close>), which compares false with every bound.\<close>

fun js_length :: "'a jsval \<Rightarrow> js_error + nat option" where
  "js_length JUndefined = Inl (TypeError ''Cannot read properties of undefined (reading length)'')"
| "js_length JNull = Inl (TypeError ''Cannot read properties of null (reading length)'')"
| "js_length (JStr s) = Inr (Some (length s))"
| "js_length (JArr xs) = Inr (Some (length xs))"
| "js_length v = Inr None"

text \<open>\<open>createModule\<close> applied to an array element; reading a property of \<open>null\<close> throws
  inside its \<open>try\<close> block.\<close>

definition createModuleOf :: "error_log \<Rightarrow> module_spec option \<Rightarrow> module option \<times> error_log" where
  "createModuleOf elog element =
     (case element of
        None \<Rightarrow>
          (None, handleError (TypeError ''Cannot read properties of null (reading name)'')
                   ''Module Design Creation'' elog)
      | Some moduleSpec \<Rightarrow> createModule elog moduleSpec)"

text \<open>The inner \<open>forEach\<close> over the modules, with its index.\<close>

fun validateModules ::
  "module_spec option list \<Rightarrow> nat \<Rightarrow> string list \<times> error_log \<Rightarrow> string list \<times> error_log" where
  "validateModules [] index acc = acc"
| "validateModules (element # rest) index (errs, elog) =
     (case createModuleOf elog element of
        (None, elog1) \<Rightarrow>
          validateModules rest (Suc index)
            (errs @ [''Invalid module at index '' @ showNat index], elog1)
      | (Some moduleValidation, elog1) \<Rightarrow> validateModules rest (Suc index) (errs, elog1))"

text \<open>The body of the \<open>forEach\<close> of \<open>_validateProjectSpec\<close> for one schema entry. The
  accumulator carries the error list and the error service's log, which the module
  validation writes to; an exception carries the log as well.\<close>

definition checkProjectField ::
  "project \<Rightarrow> string \<times> module_spec option field_schema \<Rightarrow> string list \<times> error_log
     \<Rightarrow> (js_error \<times> error_log) + (string list \<times> error_log)" where
  "checkProjectField projectSpec entry acc =
     (let key = fst entry; fieldSchema = snd entry; v = projectField projectSpec key;
          errs = fst acc; elog = snd acc in
      if required fieldSchema \<and> (v = JUndefined \<or> v = JNull)
      then Inr (errs @ [key @ '' is required''], elog)
      else if v = JUndefined then Inr (errs, elog)
      else if (case ftype fieldSchema of None \<Rightarrow> False | Some t \<Rightarrow> typeof v \<noteq> t)
      then Inr (errs @ [key @ '' must be of type '' @ the (ftype fieldSchema)], elog)
      else
        (case (if (case minLength fieldSchema of None \<Rightarrow> False | Some lo \<Rightarrow> lo \<noteq> 0)
                  \<or> (case maxLength fieldSchema of None \<Rightarrow> False | Some hi \<Rightarrow> hi \<noteq> 0)
               then js_length v else Inr None) of
           Inl e \<Rightarrow> Inl (e, elog)
         | Inr len \<Rightarrow>
             (let errs1 = (case (minLength fieldSchema, len) of
                             (Some lo, Some n) \<Rightarrow>
                               if lo \<noteq> 0 \<and> n < lo
                               then errs @ [key @ '' must be at least '' @ showNat lo
                                             @ '' characters'']
                               else errs
                           | _ \<Rightarrow> errs);
                  errs2 = (case (maxLength fieldSchema, len) of
                             (Some hi, Some n) \<Rightarrow>
                               if hi \<noteq> 0 \<and> n > hi
                               then errs1 @ [key @ '' must be at most '' @ showNat hi
                                              @ '' characters'']
                               else errs1
                           | _ \<Rightarrow> errs1);
                  errs3 = (case fmin fieldSchema of
                             None \<Rightarrow> errs2
                           | Some lo \<Rightarrow>
                               if js_lt v (real lo)
                               then errs2 @ [key @ '' must be at least '' @ showNat lo]
                               else errs2);
                  errs4 = (case fmax fieldSchema of
                             None \<Rightarrow> errs3
                           | Some hi \<Rightarrow>
                               if js_gt v (real hi)
                               then errs3 @ [key @ '' must be at most '' @ showNat hi]
                               else errs3)
              in case (case validator fieldSchema of
                         None \<Rightarrow> Inr errs4
                       | Some check \<Rightarrow>
                           (case check v of
                              Inl e \<Rightarrow> Inl e
                            | Inr customValidation \<Rightarrow>
                                Inr (if \<not> isValid customValidation
                                     then errs4 @ errors customValidation
                                     else errs4))) of
                   Inl e \<Rightarrow> Inl (e, elog)
                 | Inr errs5 \<Rightarrow>
                     if key = ''modules''
                     then (case v of
                             JArr elements \<Rightarrow> Inr (validateModules elements 0 (errs5, elog))
                           | _ \<Rightarrow> Inl (TypeError ''value.forEach is not a function'', elog))
                     else Inr (errs5, elog))))"

definition validateProjectSpec ::
  "error_log \<Rightarrow> project \<Rightarrow> (js_error \<times> error_log) + (validation_result \<times> error_log)" where
  "validateProjectSpec elog projectSpec =
     (case forEachE (checkProjectField projectSpec) projectSchema ([], elog) of
        Inl e \<Rightarrow> Inl e
      | Inr (errs, elog1) \<Rightarrow> Inr (\<lparr>isValid = (length errs = 0), errors = errs\<rparr>, elog1))"

section \<open>ProjectManagementService: normalization\<close>

text \<open>A created module read back as a specification, as happens to the modules of a
  stored project.\<close>

definition moduleAsSpec :: "module \<Rightarrow> module_spec" where
  "moduleAsSpec m =
     \<lparr>spec_name = JStr (m_name m),
      spec_width = JNum (m_width m),
      spec_height = JNum (m_height m),
      spec_depth = JNum (m_depth m),
      spec_powerDraw = JObj (m_powerDraw m),
      spec_controls = m_controls m,
      spec_images = m_images m,
      spec_hpWidth = (case m_hpWidth m of None \<Rightarrow> JUndefined | Some v \<Rightarrow> JNum v),
      spec_volumeCm3 = (case m_volumeCm3 m of None \<Rightarrow> JUndefined | Some v \<Rightarrow> JNum v)\<rparr>"

text \<open>\<open>modules.map(module => createModule(module))\<close>, threading the log.\<close>

fun createModules ::
  "error_log \<Rightarrow> module_spec option list \<Rightarrow> module option list \<times> error_log" where
  "createModules elog [] = ([], elog)"
| "createModules elog (element # rest) =
     (case createModuleOf elog element of
        (created, elog1) \<Rightarrow>
          (case createModules elog1 rest of
             (others, elog2) \<Rightarrow> (created # others, elog2)))"

text \<open>The \<open>powerSupply\<close> object of the normalized rack: the three rails as read.\<close>

definition normalizePowerSupply :: "pval \<Rightarrow> js_error + (string \<times> pval) list" where
  "normalizePowerSupply powerSupply =
     (case getProp powerSupply ''+12V'' of
        Inl e \<Rightarrow> Inl e
      | Inr v1 \<Rightarrow>
          (case getProp powerSupply ''-12V'' of
             Inl e \<Rightarrow> Inl e
           | Inr v2 \<Rightarrow>
               (case getProp powerSupply ''+5V'' of
                  Inl e \<Rightarrow> Inl e
                | Inr v3 \<Rightarrow> Inr [(''+12V'', v1), (''-12V'', v2), (''+5V'', v3)])))"

text \<open>\<open>_normalizeProjectSpec\<close>; \<open>now\<close> is the value of \<open>Date.now()\<close>. The properties
  are evaluated in the order of the object literal, and the first exception wins.\<close>

definition normalizeProjectSpec ::
  "real \<Rightarrow> error_log \<Rightarrow> project \<Rightarrow> (js_error + project) \<times> error_log" where
  "normalizeProjectSpec now elog projectSpec =
     (case p_name projectSpec of
        JStr name \<Rightarrow>
          (case (if truthy (p_description projectSpec)
                 then (case p_description projectSpec of
                         JStr d \<Rightarrow> Inr (trim d)
                       | _ \<Rightarrow> Inl (TypeError ''projectSpec.description.trim is not a function''))
                 else Inr []) of
             Inl e \<Rightarrow> (Inl e, elog)
           | Inr description \<Rightarrow>
               (case p_modules projectSpec of
                  JArr elements \<Rightarrow>
                    (case createModules elog elements of
                       (created, elog1) \<Rightarrow>
                         (case p_rack projectSpec of
                            None \<Rightarrow>
                              (Inl (TypeError ''Cannot read properties of undefined (reading width)''),
                               elog1)
                          | Some r \<Rightarrow>
                              (case normalizePowerSupply (rack_powerSupply r) of
                                 Inl e \<Rightarrow> (Inl e, elog1)
                               | Inr supply \<Rightarrow>
                                   (Inr \<lparr>p_id = None,
                                         p_name = JStr (trim name),
                                         p_description = JStr description,
                                         p_modules = JArr (map (map_option moduleAsSpec) created),
                                         p_rack = Some \<lparr>rack_width = mathRound (rack_width r),
                                                        rack_powerSupply = JObj supply\<rparr>,
                                         p_metadata = Some \<lparr>md_createdAt = now,
                                                            md_updatedAt = now,
                                                            md_version = Some 1\<rparr>\<rparr>,
                                    elog1))))
                | _ \<Rightarrow> (Inl (TypeError ''projectSpec.modules.map is not a function''), elog)))
      | _ \<Rightarrow> (Inl (TypeError ''projectSpec.name.trim is not a function''), elog))"

section \<open>ProjectManagementService: storage\<close>

text \<open>What \<open>localStorage\<close> holds under the storage key: nothing, text that does not
  parse, a parsed value that is no array, or an array of projects.\<close>

datatype stored = NoItem | Unparseable | NotAnArray | Projects "project list"

record pm_state =
  storage :: stored
  projectCache :: "string option \<rightharpoonup> project"
  errorLog :: error_log

definition logError :: "js_error \<Rightarrow> string \<Rightarrow> pm_state \<Rightarrow> pm_state" where
  "logError e ctxt st = st\<lparr>errorLog := handleError e ctxt (errorLog st)\<rparr>"

text \<open>\<open>_getProjects\<close>: \<open>None\<close> is a parsed value without the array methods.\<close>

definition getStoredProjects :: "pm_state \<Rightarrow> project list option \<times> pm_state" where
  "getStoredProjects st =
     (case storage st of
        NoItem \<Rightarrow> (Some [], st)
      | Unparseable \<Rightarrow>
          (Some [], logError (Error ''Unexpected token in JSON'') ''Storage Retrieval'' st)
      | NotAnArray \<Rightarrow> (None, st)
      | Projects ps \<Rightarrow> (Some ps, st))"

text \<open>\<open>Array.prototype.sort\<close> with the comparator
  \<open>(a, b) => b.metadata.updatedAt - a.metadata.updatedAt\<close>. The comparator is called on
  every element as soon as there are two, and throws on a project without metadata. On
  numbers it is a consistent comparator, for which the language fixes the result: the
  elements in comparator order, equal ones in their original order. That result is
  \<open>sort_key\<close> on the negated time stamp.\<close>

definition updatedAtOf :: "project \<Rightarrow> real" where
  "updatedAtOf p = (case p_metadata p of None \<Rightarrow> 0 | Some md \<Rightarrow> md_updatedAt md)"

definition sortByUpdatedAt :: "project list \<Rightarrow> js_error + project list" where
  "sortByUpdatedAt ps =
     (if 2 \<le> length ps \<and> (\<exists>p \<in> set ps. p_metadata p = None)
      then Inl (TypeError ''Cannot read properties of undefined (reading updatedAt)'')
      else Inr (sort_key (\<lambda>p. - updatedAtOf p) ps))"

definition getProjects :: "pm_state \<Rightarrow> project list \<times> pm_state" where
  "getProjects st =
     (case getStoredProjects st of
        (None, st1) \<Rightarrow>
          ([], logError (TypeError ''projects.sort is not a function'') ''Project Retrieval'' st1)
      | (Some ps, st1) \<Rightarrow>
          (case sortByUpdatedAt ps of
             Inl e \<Rightarrow> ([], logError e ''Project Retrieval'' st1)
           | Inr sorted_ps \<Rightarrow> (sorted_ps, st1)))"

definition getProjectById :: "pm_state \<Rightarrow> string \<Rightarrow> project option \<times> pm_state" where
  "getProjectById st projectId =
     (case projectCache st (Some projectId) of
        Some cached \<Rightarrow> (Some cached, st)
      | None \<Rightarrow>
          (case getStoredProjects st of
             (None, st1) \<Rightarrow>
               (None, logError (TypeError ''projects.find is not a function'')
                        ''Project Retrieval'' st1)
           | (Some ps, st1) \<Rightarrow>
               (case find (\<lambda>p. p_id p = Some projectId) ps of
                  Some found \<Rightarrow>
                    (Some found,
                     st1\<lparr>projectCache := (projectCache st1)(Some projectId \<mapsto> found)\<rparr>)
                | None \<Rightarrow> (None, st1))))"

text \<open>\<open>_saveProject\<close>: replace the stored project of the same id or append, write the
  storage, update the cache. An exception is logged and nothing is written.\<close>

fun replaceFirst :: "('a \<Rightarrow> bool) \<Rightarrow> 'a \<Rightarrow> 'a list \<Rightarrow> 'a list" where
  "replaceFirst same new [] = [new]"
| "replaceFirst same new (x # xs) = (if same x then new # xs else x # replaceFirst same new xs)"

definition saveProject :: "pm_state \<Rightarrow> project \<Rightarrow> pm_state" where
  "saveProject st proj =
     (case getStoredProjects st of
        (None, st1) \<Rightarrow>
          logError (TypeError ''projects.findIndex is not a function'') ''Project Saving'' st1
      | (Some ps, st1) \<Rightarrow>
          st1\<lparr>storage := Projects (replaceFirst (\<lambda>p. p_id p = p_id proj) proj ps),
              projectCache := (projectCache st1)(p_id proj \<mapsto> proj)\<rparr>)"

section \<open>ProjectManagementService: create and update\<close>

text \<open>\<open>createProject\<close>; \<open>now\<close> is \<open>Date.now()\<close> and \<open>newId\<close> the generated identifier.\<close>

definition createProject ::
  "real \<Rightarrow> string \<Rightarrow> pm_state \<Rightarrow> project \<Rightarrow> project option \<times> pm_state" where
  "createProject now newId st projectSpec =
     (case validateProjectSpec (errorLog st) projectSpec of
        Inl (e, elog1) \<Rightarrow> (None, logError e ''Project Creation'' (st\<lparr>errorLog := elog1\<rparr>))
      | Inr (validationResult, elog1) \<Rightarrow>
          if \<not> isValid validationResult
          then (None, logError (Error (''Invalid project specification: ''
                                        @ joinComma (errors validationResult)))
                        ''Project Creation'' (st\<lparr>errorLog := elog1\<rparr>))
          else
            (case normalizeProjectSpec now elog1 projectSpec of
               (Inl e, elog2) \<Rightarrow> (None, logError e ''Project Creation'' (st\<lparr>errorLog := elog2\<rparr>))
             | (Inr normalized, elog2) \<Rightarrow>
                 (let proj = normalized\<lparr>p_id := Some newId\<rparr>
                  in (Some proj, saveProject (st\<lparr>errorLog := elog2\<rparr>) proj))))"

text \<open>The object \<open>updateProject\<close> builds from the stored project and the updates:
  \<open>{...project, ...updates, metadata: {...project.metadata, updatedAt: Date.now(),
  version: (project.metadata.version || 0) + 1}}\<close>. Reading \<open>version\<close> of an absent
  metadata throws.\<close>

definition nextVersion :: "real option \<Rightarrow> real" where
  "nextVersion version =
     (case version of None \<Rightarrow> 0 | Some v \<Rightarrow> if v \<noteq> 0 then v else 0) + 1"

definition mergeUpdates :: "real \<Rightarrow> project \<Rightarrow> project_updates \<Rightarrow> js_error + project" where
  "mergeUpdates now proj updates =
     (case p_metadata proj of
        None \<Rightarrow> Inl (TypeError ''Cannot read properties of undefined (reading version)'')
      | Some md \<Rightarrow>
          Inr \<lparr>p_id = (case u_id updates of None \<Rightarrow> p_id proj | Some v \<Rightarrow> Some v),
               p_name = (case u_name updates of None \<Rightarrow> p_name proj | Some v \<Rightarrow> v),
               p_description =
                 (case u_description updates of None \<Rightarrow> p_description proj | Some v \<Rightarrow> v),
               p_modules = (case u_modules updates of None \<Rightarrow> p_modules proj | Some v \<Rightarrow> v),
               p_rack = (case u_rack updates of None \<Rightarrow> p_rack proj | Some v \<Rightarrow> v),
               p_metadata = Some (md\<lparr>md_updatedAt := now,
                                     md_version := Some (nextVersion (md_version md))\<rparr>)\<rparr>)"

definition updateProject ::
  "real \<Rightarrow> pm_state \<Rightarrow> string \<Rightarrow> project_updates \<Rightarrow> project option \<times> pm_state" where
  "updateProject now st projectId updates =
     (case getProjectById st projectId of
        (None, st1) \<Rightarrow> (None, logError (Error ''Project not found'') ''Project Update'' st1)
      | (Some proj, st1) \<Rightarrow>
          (case mergeUpdates now proj updates of
             Inl e \<Rightarrow> (None, logError e ''Project Update'' st1)
           | Inr updatedProject \<Rightarrow>
               (case validateProjectSpec (errorLog st1) updatedProject of
                  Inl (e, elog1) \<Rightarrow>
                    (None, logError e ''Project Update'' (st1\<lparr>errorLog := elog1\<rparr>))
                | Inr (validationResult, elog1) \<Rightarrow>
                    if \<not> isValid validationResult
                    then (None, logError (Error (''Invalid project updates: ''
                                                  @ joinComma (errors validationResult)))
                                  ''Project Update'' (st1\<lparr>errorLog := elog1\<rparr>))
                    else (Some updatedProject,
                          saveProject (st1\<lparr>errorLog := elog1\<rparr>) updatedProject))))"

section \<open>ModuleDesignService as an object\<close>

text \<open>The service is a class; the application uses one instance, exported by the module.
  Its constructor sets two fields, \<open>_standards\<close> and \<open>_moduleSchema\<close>, and every method
  reads them through \<open>this\<close>. Here the instance is a value: the methods take it as an
  argument, and the schema's \<open>validator\<close> is the bound method it names, called on the
  instance. The state a call can read or write is the instance together with the error
  service's log. The definitions of the sections above are these methods on the instance
  the constructor builds (lemmas \<open>validateModuleSpecOn_new\<close>, \<open>createModuleOn_try_new\<close> and
  \<open>create3DModelOn_new\<close> below).\<close>

record service_standards =
  st_hpUnit :: real
  st_standardHeight :: real
  st_maxWidth :: real
  st_powerConnectors :: "string list"

datatype bound_method = ValidatePowerDrawMethod

record schema_rule =
  rule_required :: bool
  rule_type :: "string option"
  rule_min :: "nat option"
  rule_max :: "nat option"
  rule_minLength :: "nat option"
  rule_maxLength :: "nat option"
  rule_validator :: "bound_method option"

record module_design_service =
  mds_standards :: service_standards
  mds_moduleSchema :: "(string \<times> schema_rule) list"

definition newModuleDesignService :: module_design_service where
  "newModuleDesignService =
     \<lparr>mds_standards =
        \<lparr>st_hpUnit = 5.08, st_standardHeight = 128.5, st_maxWidth = 42 * 5.08,
         st_powerConnectors = [''+12V'', ''-12V'', ''+5V'']\<rparr>,
      mds_moduleSchema =
        [(''name'', \<lparr>rule_required = True, rule_type = Some ''string'', rule_min = None,
                     rule_max = None, rule_minLength = Some 1, rule_maxLength = Some 50,
                     rule_validator = None\<rparr>),
         (''width'', \<lparr>rule_required = True, rule_type = Some ''number'', rule_min = Some 2,
                      rule_max = Some 42, rule_minLength = None, rule_maxLength = None,
                      rule_validator = None\<rparr>),
         (''height'', \<lparr>rule_required = True, rule_type = Some ''number'', rule_min = Some 100,
                       rule_max = Some 150, rule_minLength = None, rule_maxLength = None,
                       rule_validator = None\<rparr>),
         (''depth'', \<lparr>rule_required = True, rule_type = Some ''number'', rule_min = Some 20,
                      rule_max = Some 45, rule_minLength = None, rule_maxLength = None,
                      rule_validator = None\<rparr>),
         (''powerDraw'', \<lparr>rule_required = False, rule_type = None, rule_min = None,
                          rule_max = None, rule_minLength = None, rule_maxLength = None,
                          rule_validator = Some ValidatePowerDrawMethod\<rparr>)]\<rparr>"

record runtime =
  rt_moduleDesign :: module_design_service
  rt_errors :: error_log

definition validatePowerDrawOn :: "module_design_service \<Rightarrow> 'a jsval \<Rightarrow> js_error + validation_result" where
  "validatePowerDrawOn this powerDraw =
     (case forEachE (checkRail powerDraw) (st_powerConnectors (mds_standards this)) [] of
        Inl e \<Rightarrow> Inl e
      | Inr errs \<Rightarrow> Inr \<lparr>isValid = (length errs = 0), errors = errs\<rparr>)"

fun callBound :: "module_design_service \<Rightarrow> bound_method \<Rightarrow> 'a jsval \<Rightarrow> js_error + validation_result" where
  "callBound this ValidatePowerDrawMethod v = validatePowerDrawOn this v"

definition checkModuleFieldOn ::
  "module_design_service \<Rightarrow> module_spec \<Rightarrow> string \<times> schema_rule \<Rightarrow> string list
     \<Rightarrow> js_error + string list" where
  "checkModuleFieldOn this moduleSpec entry errs =
     (let key = fst entry; fieldSchema = snd entry; v = moduleField moduleSpec key in
      if rule_required fieldSchema \<and> (v = JUndefined \<or> v = JNull)
      then Inr (errs @ [key @ '' is required''])
      else if (case rule_type fieldSchema of None \<Rightarrow> False | Some t \<Rightarrow> typeof v \<noteq> t)
      then Inr (errs @ [key @ '' must be of type '' @ the (rule_type fieldSchema)])
      else
        (let errs1 = (case rule_min fieldSchema of
                        None \<Rightarrow> errs
                      | Some lo \<Rightarrow>
                          if js_lt v (real lo)
                          then errs @ [key @ '' must be at least '' @ showNat lo]
                          else errs);
             errs2 = (case rule_max fieldSchema of
                        None \<Rightarrow> errs1
                      | Some hi \<Rightarrow>
                          if js_gt v (real hi)
                          then errs1 @ [key @ '' must be at most '' @ showNat hi]
                          else errs1)
         in case rule_validator fieldSchema of
              None \<Rightarrow> Inr errs2
            | Some bound \<Rightarrow>
                (case callBound this bound v of
                   Inl e \<Rightarrow> Inl e
                 | Inr customValidation \<Rightarrow>
                     Inr (if \<not> isValid customValidation
                          then errs2 @ errors customValidation
                          else errs2))))"

definition validateModuleSpecOn :: "module_design_service \<Rightarrow> module_spec \<Rightarrow> js_error + validation_result" where
  "validateModuleSpecOn this moduleSpec =
     (case forEachE (checkModuleFieldOn this moduleSpec) (mds_moduleSchema this) [] of
        Inl e \<Rightarrow> Inl e
      | Inr errs \<Rightarrow> Inr \<lparr>isValid = (length errs = 0), errors = errs\<rparr>)"

definition calculateVolumeOn :: "module_design_service \<Rightarrow> module \<Rightarrow> real" where
  "calculateVolumeOn this m =
     m_width m * st_hpUnit (mds_standards this) * m_height m / 10 * m_depth m / 10"

definition createModuleOn_try :: "module_design_service \<Rightarrow> module_spec \<Rightarrow> js_error + module" where
  "createModuleOn_try this moduleSpec =
     (case validateModuleSpecOn this moduleSpec of
        Inl e \<Rightarrow> Inl e
      | Inr validationResult \<Rightarrow>
          if \<not> isValid validationResult
          then Inl (Error (''Invalid module specification: ''
                           @ joinComma (errors validationResult)))
          else
            (case normalizeModuleSpec moduleSpec of
               Inl e \<Rightarrow> Inl e
             | Inr normalizedModule \<Rightarrow>
                 (let m1 = normalizedModule
                             \<lparr>m_hpWidth := Some (m_width normalizedModule
                                                   * st_hpUnit (mds_standards this))\<rparr>;
                      m2 = m1\<lparr>m_volumeCm3 := Some (calculateVolumeOn this m1)\<rparr>
                  in Inr m2)))"

definition createModuleOn :: "runtime \<Rightarrow> module_spec \<Rightarrow> module option \<times> runtime" where
  "createModuleOn rt moduleSpec =
     (case createModuleOn_try (rt_moduleDesign rt) moduleSpec of
        Inl e \<Rightarrow> (None, rt\<lparr>rt_errors := handleError e ''Module Design Creation'' (rt_errors rt)\<rparr>)
      | Inr m \<Rightarrow> (Some m, rt))"

definition addControlTo3DModelOn ::
  "module_design_service \<Rightarrow> mesh list \<Rightarrow> control \<Rightarrow> module \<Rightarrow> mesh list" where
  "addControlTo3DModelOn this moduleGroup ctl m =
     (let width = m_width m * st_hpUnit (mds_standards this);
          height = m_height m;
          x = (ctl_x ctl / 100 * width) - (width / 2);
          y = (height / 2) - (ctl_y ctl / 100 * height);
          z = m_depth m / 2 + 1
      in if ctl_type ctl = ''knob''
         then moduleGroup @ [(newMesh (CylinderGeometry 4 4 6 16) (lambert 0x666666))
                               \<lparr>mesh_position := (x, y, z)\<rparr>]
         else if ctl_type ctl = ''jack''
         then moduleGroup @ [(newMesh (CylinderGeometry 3 3 8 16) (lambert 0x000000))
                               \<lparr>mesh_position := (x, y, z)\<rparr>]
         else if ctl_type ctl = ''switch''
         then moduleGroup @ [(newMesh (BoxGeometry 6 12 4) (lambert 0x444444))
                               \<lparr>mesh_position := (x, y, z)\<rparr>]
         else moduleGroup)"

definition create3DModelOn :: "runtime \<Rightarrow> module_spec \<Rightarrow> mesh list option \<times> runtime" where
  "create3DModelOn rt moduleSpec =
     (case createModuleOn rt moduleSpec of
        (None, rt1) \<Rightarrow>
          (None, rt1\<lparr>rt_errors := handleError (Error ''Invalid module specification'')
                                     ''3D Module Model Generation'' (rt_errors rt1)\<rparr>)
      | (Some m, rt1) \<Rightarrow>
          (case m_controls m of
             JArr cs \<Rightarrow>
               (Some (foldl (\<lambda>g c. addControlTo3DModelOn (rt_moduleDesign rt1) g c m)
                        [newMesh (BoxGeometry (m_width m * st_hpUnit (mds_standards (rt_moduleDesign rt1)))
                                              (m_height m) 2)
                                 (lambert 0x333333)]
                        cs),
                rt1)
           | _ \<Rightarrow>
               (None, rt1\<lparr>rt_errors := handleError
                                          (TypeError ''module.controls.forEach is not a function'')
                                          ''3D Module Model Generation'' (rt_errors rt1)\<rparr>)))"

text \<open>The state when the application starts: the instance as constructed, nothing
  logged.\<close>

definition startRuntime :: runtime where
  "startRuntime = \<lparr>rt_moduleDesign = newModuleDesignService, rt_errors = []\<rparr>"

section \<open>Predicates and inputs used in the statements\<close>

text \<open>A power-draw object keeps a rail within the limit when the rail is omitted or is a
  number in \<open>[0, 500]\<close>.\<close>

definition drawInRange :: "(string \<times> 'a jsval) list \<Rightarrow> string \<Rightarrow> bool" where
  "drawInRange pd rail =
     (case map_of pd rail of
        None \<Rightarrow> True
      | Some (JNum d) \<Rightarrow> 0 \<le> d \<and> d \<le> 500
      | Some _ \<Rightarrow> False)"

text \<open>A string is trimmed when it neither starts nor ends with white space.\<close>

definition trimmed :: "string \<Rightarrow> bool" where
  "trimmed s = (s = [] \<or> (\<not> isWhiteSpace (hd s) \<and> \<not> isWhiteSpace (last s)))"

text \<open>The specification \<open>AppController._updateCurrentModuleImages\<close> passes to
  \<open>createModule\<close>: no \<open>powerDraw\<close>.\<close>

definition appControllerSpec :: module_spec where
  "appControllerSpec =
     \<lparr>spec_name = JStr ''New Module'', spec_width = JNum 4, spec_height = JNum 128.5,
      spec_depth = JNum 25, spec_powerDraw = JUndefined, spec_controls = JUndefined,
      spec_images = JUndefined, spec_hpWidth = JUndefined, spec_volumeCm3 = JUndefined\<rparr>"

text \<open>The specification \<open>AppController._handleGeneratedModel\<close> passes to
  \<open>createModule\<close> for a generated model of 50.8 by 128.5 by 30 mm from a service named
  \<open>AI\<close>: the width is \<open>50.8 / 5.08\<close>, and there is no \<open>powerDraw\<close>.\<close>

definition generatedModuleSpec :: module_spec where
  "generatedModuleSpec =
     \<lparr>spec_name = JStr ''AI Module'', spec_width = JNum 10, spec_height = JNum 128.5,
      spec_depth = JNum 30, spec_powerDraw = JUndefined, spec_controls = JUndefined,
      spec_images = JUndefined, spec_hpWidth = JUndefined, spec_volumeCm3 = JUndefined\<rparr>"

text \<open>The editor's default module (\<open>getDefaultModule\<close>).\<close>

definition defaultModuleSpec :: module_spec where
  "defaultModuleSpec =
     \<lparr>spec_name = JStr ''Untitled Module'', spec_width = JNum 4, spec_height = JNum 128.5,
      spec_depth = JNum 25,
      spec_powerDraw = JObj [(''+12V'', JNum 0), (''-12V'', JNum 0), (''+5V'', JNum 0)],
      spec_controls = JArr [], spec_images = JArr [],
      spec_hpWidth = JUndefined, spec_volumeCm3 = JUndefined\<rparr>"

text \<open>The default module with a name of one space.\<close>

definition blankNameSpec :: module_spec where
  "blankNameSpec = defaultModuleSpec\<lparr>spec_name := JStr '' ''\<rparr>"

text \<open>The control types the projector knows.\<close>

definition recognized :: "string \<Rightarrow> bool" where
  "recognized t = (t = ''knob'' \<or> t = ''jack'' \<or> t = ''switch'')"

text \<open>The projection as the specification words it: the position of a control from its
  percentage coordinates, the geometry tag of a control type (cylinder of radius 4 and
  height 6, cylinder of radius 3 and height 8, box 6 by 12 by 4), and the placements of a
  control list, in which a control without a tag is skipped.\<close>

definition projectedPosition :: "real \<Rightarrow> real \<Rightarrow> real \<Rightarrow> control \<Rightarrow> real \<times> real \<times> real" where
  "projectedPosition widthMm heightMm depth ctl =
     ((ctl_x ctl / 100 * widthMm) - widthMm / 2,
      heightMm / 2 - (ctl_y ctl / 100 * heightMm),
      depth / 2 + 1)"

definition geometryTag :: "string \<Rightarrow> geometry option" where
  "geometryTag t =
     (if t = ''knob'' then Some (CylinderGeometry 4 4 6 16)
      else if t = ''jack'' then Some (CylinderGeometry 3 3 8 16)
      else if t = ''switch'' then Some (BoxGeometry 6 12 4)
      else None)"

fun placements :: "real \<Rightarrow> real \<Rightarrow> real \<Rightarrow> control list \<Rightarrow> (geometry \<times> real \<times> real \<times> real) list" where
  "placements widthMm heightMm depth [] = []"
| "placements widthMm heightMm depth (ctl # rest) =
     (case geometryTag (ctl_type ctl) of
        None \<Rightarrow> placements widthMm heightMm depth rest
      | Some geo \<Rightarrow>
          (geo, projectedPosition widthMm heightMm depth ctl)
            # placements widthMm heightMm depth rest)"

text \<open>The inverse mapping of the specification, from a position back to percentages.\<close>

definition percentFromPosition :: "real \<Rightarrow> real \<Rightarrow> real \<times> real \<times> real \<Rightarrow> real \<times> real" where
  "percentFromPosition widthMm heightMm pos =
     (case pos of (posX, posY, posZ) \<Rightarrow>
        ((posX + widthMm / 2) / widthMm * 100, (heightMm / 2 - posY) / heightMm * 100))"


text \<open>Controls and modules used as concrete inputs.\<close>

definition centeredKnob :: control where
  "centeredKnob = \<lparr>ctl_type = ''knob'', ctl_x = 50, ctl_y = 50, ctl_label = ''knob 1'', ctl_id = 0\<rparr>"

definition centeredKnobSpec :: module_spec where
  "centeredKnobSpec = defaultModuleSpec\<lparr>spec_controls := JArr [centeredKnob]\<rparr>"

definition centeredKnobApp :: app_state where
  "centeredKnobApp =
     \<lparr>app_currentModule = \<lparr>am_name = ''Untitled Module'', am_width = 4, am_height = 128.5, am_depth = 25\<rparr>,
      app_controls = [centeredKnob], app_scene = True, app_currentModel = None\<rparr>"


definition offCenterJack :: control where
  "offCenterJack = \<lparr>ctl_type = ''jack'', ctl_x = 25, ctl_y = 80, ctl_label = ''jack 2'', ctl_id = 2\<rparr>"


text \<open>The module \<open>createModule\<close> returns for the default specification (lemma
  \<open>createModule_default\<close>).\<close>

definition defaultModule :: module where
  "defaultModule =
     \<lparr>m_name = ''Untitled Module'', m_width = 4, m_height = 129, m_depth = 25,
      m_powerDraw = [(''+12V'', JNum 0), (''-12V'', JNum 0), (''+5V'', JNum 0)],
      m_controls = JArr [], m_images = JArr [],
      m_hpWidth = Some 20.32, m_volumeCm3 = Some 655.32\<rparr>"



definition storedProject :: "string \<Rightarrow> real \<Rightarrow> project" where
  "storedProject ident updated =
     \<lparr>p_id = Some ident, p_name = JStr ''Rack'', p_description = JStr [],
      p_modules = JArr [Some (moduleAsSpec defaultModule)],
      p_rack = Some \<lparr>rack_width = 104,
                     rack_powerSupply = JObj [(''+12V'', JNum 1000), (''-12V'', JNum 1000),
                                              (''+5V'', JNum 500)]\<rparr>,
      p_metadata = Some \<lparr>md_createdAt = 1000, md_updatedAt = updated, md_version = Some 1\<rparr>\<rparr>"

definition renameUpdates :: project_updates where
  "renameUpdates =
     \<lparr>u_id = None, u_name = Some (JStr ''Renamed''), u_description = None, u_modules = None,
      u_rack = None,
      u_metadata = Some (Some \<lparr>md_createdAt = 0, md_updatedAt = 0, md_version = Some 50\<rparr>)\<rparr>"


definition storedState :: pm_state where
  "storedState =
     \<lparr>storage = Projects [storedProject ''prj_a'' 1000, storedProject ''prj_b'' 3000,
                           storedProject ''prj_c'' 2000],
      projectCache = Map.empty, errorLog = []\<rparr>"

section \<open>Loops that accumulate errors\<close>

lemma forEachE_no_errors:
  assumes "\<And>k errs errs'. f k errs = Inr errs' \<Longrightarrow> length errs \<le> length errs'"
      and "forEachE f ks errs = Inr []"
  shows "errs = [] \<and> (\<forall>k \<in> set ks. f k [] = Inr [])"
  using assms(2)
proof (induction ks arbitrary: errs)
  case Nil
  then show ?case by simp
next
  case (Cons k ks)
  from Cons.prems obtain mid where mid: "f k errs = Inr mid" "forEachE f ks mid = Inr []"
    by (auto split: sum.splits)
  from Cons.IH[OF mid(2)] have "mid = []" and rest: "\<forall>k \<in> set ks. f k [] = Inr []" by auto
  with assms(1)[OF mid(1)] have "errs = []" by simp
  with mid(1) \<open>mid = []\<close> rest show ?case by simp
qed

lemma forEachE_throws:
  assumes "k \<in> set ks" and "\<And>s. \<exists>e. f k s = Inl e"
  shows "\<exists>e. forEachE f ks s = Inl e"
  using assms(1)
proof (induction ks arbitrary: s)
  case Nil
  then show ?case by simp
next
  case (Cons k' ks)
  show ?case
  proof (cases "f k' s")
    case (Inl e)
    then show ?thesis by simp
  next
    case (Inr s')
    with assms(2)[of s] have "k \<noteq> k'" by auto
    with Cons.prems have "k \<in> set ks" by simp
    from Cons.IH[OF this, of s'] Inr show ?thesis by simp
  qed
qed

lemma forEachE_error:
  assumes "\<And>k s e. k \<in> set ks \<Longrightarrow> f k s = Inl e \<Longrightarrow> P e" and "forEachE f ks s = Inl e"
  shows "P e"
  using assms
proof (induction ks arbitrary: s)
  case Nil
  then show ?case by simp
next
  case (Cons k ks)
  show ?case
  proof (cases "f k s")
    case (Inl e')
    with Cons.prems(2) have "e' = e" by simp
    with Inl Cons.prems(1)[of k s e] show ?thesis by simp
  next
    case (Inr s')
    with Cons.prems(2) have run: "forEachE f ks s' = Inl e" by simp
    have "P e'" if "k' \<in> set ks" "f k' t = Inl e'" for k' t e'
      using Cons.prems(1)[of k' t e'] that by simp
    from Cons.IH[OF this run] show ?thesis .
  qed
qed


lemma forEachE_mono:
  assumes "\<And>k s s'. k \<in> set ks \<Longrightarrow> f k s = Inr s' \<Longrightarrow> \<mu> s \<le> (\<mu> s' :: nat)"
      and "forEachE f ks s = Inr s'"
  shows "\<mu> s \<le> \<mu> s'"
  using assms
proof (induction ks arbitrary: s)
  case Nil
  then show ?case by simp
next
  case (Cons k ks)
  from Cons.prems(2) obtain mid where mid: "f k s = Inr mid" "forEachE f ks mid = Inr s'"
    by (auto split: sum.splits)
  have step: "\<mu> s \<le> \<mu> mid" using Cons.prems(1)[of k s mid] mid(1) by simp
  have "\<mu> mid \<le> \<mu> s'"
  proof (rule Cons.IH[OF _ mid(2)])
    fix k' t t'
    assume "k' \<in> set ks" "f k' t = Inr t'"
    then show "\<mu> t \<le> \<mu> t'" using Cons.prems(1)[of k' t t'] by simp
  qed
  with step show ?case by simp
qed

lemma forEachE_strict:
  assumes "\<And>k s s'. k \<in> set ks \<Longrightarrow> f k s = Inr s' \<Longrightarrow> \<mu> s \<le> (\<mu> s' :: nat)"
      and "k0 \<in> set ks"
      and "\<And>s s'. f k0 s = Inr s' \<Longrightarrow> \<mu> s < \<mu> s'"
      and "forEachE f ks s = Inr s'"
  shows "\<mu> s < \<mu> s'"
  using assms(1,2,4)
proof (induction ks arbitrary: s)
  case Nil
  then show ?case by simp
next
  case (Cons k ks)
  from Cons.prems(3) obtain mid where mid: "f k s = Inr mid" "forEachE f ks mid = Inr s'"
    by (auto split: sum.splits)
  have step: "\<mu> s \<le> \<mu> mid" using Cons.prems(1)[of k s mid] mid(1) by simp
  have rest: "\<mu> t \<le> \<mu> t'" if "k' \<in> set ks" "f k' t = Inr t'" for k' t t'
    using Cons.prems(1)[of k' t t'] that by simp
  show ?case
  proof (cases "k = k0")
    case True
    with assms(3) mid(1) have "\<mu> s < \<mu> mid" by simp
    moreover have "\<mu> mid \<le> \<mu> s'"
      by (rule forEachE_mono[of ks f \<mu> mid s', OF _ mid(2)]) (rule rest)
    ultimately show ?thesis by simp
  next
    case False
    with Cons.prems(2) have "k0 \<in> set ks" by simp
    have "\<mu> mid < \<mu> s'"
      by (rule Cons.IH[OF _ \<open>k0 \<in> set ks\<close> mid(2)]) (rule rest)
    with step show ?thesis by simp
  qed
qed

lemma forEachE_returns:
  assumes "\<And>k s. k \<in> set ks \<Longrightarrow> \<exists>s'. f k s = Inr s'"
  shows "\<exists>s'. forEachE f ks s = Inr s'"
  using assms
proof (induction ks arbitrary: s)
  case Nil
  show ?case by simp
next
  case (Cons k ks)
  from Cons.prems[of k s] obtain mid where mid: "f k s = Inr mid" by auto
  have "\<exists>s'. forEachE f ks mid = Inr s'"
  proof (rule Cons.IH)
    fix k' t
    assume "k' \<in> set ks"
    then show "\<exists>s'. f k' t = Inr s'" using Cons.prems[of k' t] by simp
  qed
  with mid show ?case by simp
qed

section \<open>Module validation\<close>

lemma bounds_only_on_numbers:
  "(k, fs) \<in> set moduleSchema \<Longrightarrow> fmin fs \<noteq> None \<or> fmax fs \<noteq> None
     \<Longrightarrow> ftype fs = Some ''number''"
  by (auto simp add: moduleSchema_def)

lemma project_schema_has_no_bounds:
  "(k, fs) \<in> set projectSchema \<Longrightarrow> fmin fs = None \<and> fmax fs = None \<and> validator fs = None"
  by (auto simp add: projectSchema_def)

lemma validatePowerDraw_undefined:
  "validatePowerDraw (JUndefined :: 'a jsval) =
     Inl (TypeError ''Cannot read properties of undefined (reading +12V)'')"
  by (simp add: validatePowerDraw_def powerConnectors_def checkRail_def)

lemma validatePowerDraw_null:
  "validatePowerDraw (JNull :: 'a jsval) =
     Inl (TypeError ''Cannot read properties of null (reading +12V)'')"
  by (simp add: validatePowerDraw_def powerConnectors_def checkRail_def)

lemma validatePowerDraw_throws:
  "v = JUndefined \<or> v = JNull \<Longrightarrow> \<exists>e. validatePowerDraw v = Inl e"
  using validatePowerDraw_undefined validatePowerDraw_null by blast

lemma validateModuleSpec_throws:
  assumes "spec_powerDraw s = JUndefined \<or> spec_powerDraw s = JNull"
  shows "\<exists>e. validateModuleSpec s = Inl e"
proof -
  let ?entry = "(''powerDraw'', \<lparr>required = False, ftype = None, fmin = None, fmax = None,
                       minLength = None, maxLength = None,
                       validator = Some (validatePowerDraw :: mval \<Rightarrow> _)\<rparr>)"
  from validatePowerDraw_throws[OF assms] obtain e
    where e: "validatePowerDraw (spec_powerDraw s) = Inl e" by blast
  have always: "\<And>errs. \<exists>e. checkModuleField s ?entry errs = Inl e"
    by (simp add: checkModuleField_def moduleField_def e)
  have "?entry \<in> set moduleSchema" by (simp add: moduleSchema_def)
  from forEachE_throws[of ?entry moduleSchema "checkModuleField s" "[]", OF this always]
  show ?thesis by (auto simp add: validateModuleSpec_def split: sum.splits)
qed

lemma getProp_returns: "v \<noteq> JUndefined \<Longrightarrow> v \<noteq> JNull \<Longrightarrow> \<exists>r. getProp v key = Inr r"
  by (cases v) simp_all

lemma validatePowerDraw_returns:
  assumes "v \<noteq> JUndefined" "v \<noteq> JNull"
  shows "\<exists>r. validatePowerDraw v = Inr r"
proof -
  have "\<exists>s'. checkRail v rail s = Inr s'" for rail s
    using getProp_returns[OF assms, of rail] by (auto simp add: checkRail_def Let_def)
  then have "\<exists>s'. forEachE (checkRail v) powerConnectors [] = Inr s'"
    by (intro forEachE_returns) simp
  then show ?thesis by (auto simp add: validatePowerDraw_def)
qed

lemma validateModuleSpec_returns:
  assumes "spec_powerDraw s \<noteq> JUndefined" "spec_powerDraw s \<noteq> JNull"
  shows "\<exists>r. validateModuleSpec s = Inr r"
proof -
  from validatePowerDraw_returns[OF assms] obtain pr
    where pr: "validatePowerDraw (spec_powerDraw s) = Inr pr" by blast
  have "\<exists>s'. checkModuleField s entry errs = Inr s'" if "entry \<in> set moduleSchema" for entry errs
  proof (cases "validator (snd entry)")
    case None
    then show ?thesis by (simp add: checkModuleField_def Let_def)
  next
    case (Some check)
    with that have "fst entry = ''powerDraw''" "check = validatePowerDraw"
      by (auto simp add: moduleSchema_def)
    with Some pr show ?thesis
      by (simp add: checkModuleField_def moduleField_def Let_def)
  qed
  then have "\<exists>s'. forEachE (checkModuleField s) moduleSchema [] = Inr s'"
    by (intro forEachE_returns) simp
  then show ?thesis by (auto simp add: validateModuleSpec_def)
qed

text \<open>
  C1. Claimed: module validation returns a result object for every input and never throws,
  in particular when the optional \<open>powerDraw\<close> is absent. The code does not: the schema
  marks \<open>powerDraw\<close> as not required, but the validator runs the custom check on the
  absent value, and \<open>_validatePowerDraw\<close> reads a rail of \<open>undefined\<close>. On the
  specification that \<open>AppController\<close> itself passes, validation throws a \<open>TypeError\<close> and
  \<open>createModule\<close> returns \<open>null\<close>. Lemma \<open>validateModuleSpec_throws\<close> above shows the
  same for every specification without \<open>powerDraw\<close>, and lemma
  \<open>validateModuleSpec_returns\<close> that validation returns a result for every
  specification with one.
\<close>

theorem validateModuleSpec_throws_without_powerDraw:
  "validateModuleSpec appControllerSpec =
     Inl (TypeError ''Cannot read properties of undefined (reading +12V)'')
   \<and> fst (createModule [] appControllerSpec) = None"
  by (simp add: validateModuleSpec_def moduleSchema_def checkModuleField_def moduleField_def
      appControllerSpec_def js_lt_def js_gt_def validatePowerDraw_def powerConnectors_def
      checkRail_def createModule_def createModule_try_def)

lemma checkRail_ok:
  "drawInRange pd rail \<Longrightarrow> checkRail (JObj pd) rail errs = Inr errs"
  by (auto simp add: checkRail_def drawInRange_def js_or_def js_lt_def js_gt_def
      split: option.splits jsval.splits)

lemma validatePowerDraw_ok:
  assumes "\<forall>rail \<in> set powerConnectors. drawInRange pd rail"
  shows "validatePowerDraw (JObj pd) = Inr \<lparr>isValid = True, errors = []\<rparr>"
  using assms by (simp add: validatePowerDraw_def powerConnectors_def checkRail_ok)

text \<open>With a power-draw object the specification's sentence holds: a text name,
  dimensions within the bounds and rails that are omitted or within \<open>[0, 500]\<close> give an
  empty error list.\<close>

lemma validateModuleSpec_accepts_in_range:
  assumes "spec_name s = JStr name"
      and "spec_width s = JNum w" "2 \<le> w" "w \<le> 42"
      and "spec_height s = JNum h" "100 \<le> h" "h \<le> 150"
      and "spec_depth s = JNum d" "20 \<le> d" "d \<le> 45"
      and "spec_powerDraw s = JObj pd"
      and "\<forall>rail \<in> set powerConnectors. drawInRange pd rail"
  shows "validateModuleSpec s = Inr \<lparr>isValid = True, errors = []\<rparr>"
proof -
  have pd: "validatePowerDraw (spec_powerDraw s) = Inr \<lparr>isValid = True, errors = []\<rparr>"
    using assms(11,12) by (simp add: validatePowerDraw_ok)
  show ?thesis
    using assms(1-10)
    by (simp add: validateModuleSpec_def moduleSchema_def checkModuleField_def moduleField_def
        js_lt_def js_gt_def pd)
qed

lemma validateModuleSpec_accepts_default:
  "validateModuleSpec defaultModuleSpec = Inr \<lparr>isValid = True, errors = []\<rparr>"
  using validateModuleSpec_accepts_in_range
          [of defaultModuleSpec "''Untitled Module''" 4 "128.5" 25
              "[(''+12V'', JNum 0), (''-12V'', JNum 0), (''+5V'', JNum 0)]"]
  by (simp add: defaultModuleSpec_def powerConnectors_def drawInRange_def)

text \<open>
  C2. Claimed: a module specification with a width in \<open>[2, 42]\<close>, a height in
  \<open>[100, 150]\<close>, a depth in \<open>[20, 45]\<close> and every power-rail draw in \<open>[0, 500]\<close> is
  accepted with an empty error list. The code does not do so for the specifications that
  carry no \<open>powerDraw\<close> at all, which the schema allows (\<open>required: false\<close>) and which
  have no rail draw out of range: for every such specification with a text name and
  dimensions within the bounds, validation returns no error list but throws the
  \<open>TypeError\<close> of reading a rail of \<open>undefined\<close>, and \<open>createModule\<close> logs it and
  returns \<open>null\<close>. This is the defect of C1, met here on the inputs of C2. Lemma
  \<open>validateModuleSpec_accepts_in_range\<close> above is the claim for the specifications that
  do carry a power-draw object.
\<close>

theorem validateModuleSpec_in_range_throws:
  assumes "spec_name s = JStr name"
      and "spec_width s = JNum w" "2 \<le> w" "w \<le> 42"
      and "spec_height s = JNum h" "100 \<le> h" "h \<le> 150"
      and "spec_depth s = JNum d" "20 \<le> d" "d \<le> 45"
      and "spec_powerDraw s = JUndefined"
  shows "validateModuleSpec s
           = Inl (TypeError ''Cannot read properties of undefined (reading +12V)'')
         \<and> createModule elog s
           = (None, handleError (TypeError ''Cannot read properties of undefined (reading +12V)'')
                      ''Module Design Creation'' elog)"
proof -
  have v: "validateModuleSpec s
             = Inl (TypeError ''Cannot read properties of undefined (reading +12V)'')"
    using assms
    by (simp add: validateModuleSpec_def moduleSchema_def checkModuleField_def moduleField_def
        js_lt_def js_gt_def validatePowerDraw_def powerConnectors_def checkRail_def)
  then show ?thesis by (simp add: createModule_def createModule_try_def)
qed

theorem validateModuleSpec_in_range_throws_witness:
  "validateModuleSpec generatedModuleSpec
     = Inl (TypeError ''Cannot read properties of undefined (reading +12V)'')
   \<and> fst (createModule [] generatedModuleSpec) = None"
  using validateModuleSpec_in_range_throws[of generatedModuleSpec "''AI Module''" 10 "128.5" 30 "[]"]
  by (simp add: generatedModuleSpec_def)

subsection \<open>What an accepted specification looks like\<close>

lemma checkModuleField_grows:
  "checkModuleField s e errs = Inr errs' \<Longrightarrow> length errs \<le> length errs'"
  by (auto simp add: checkModuleField_def Let_def split: if_splits option.splits sum.splits)

lemma name_inv:
  "checkModuleField s (''name'', \<lparr>required = True, ftype = Some ''string'', fmin = None, fmax = None,
                  minLength = Some 1, maxLength = Some 50, validator = None\<rparr>) [] = Inr []
   \<Longrightarrow> \<exists>name. spec_name s = JStr name"
  by (cases "spec_name s") (auto simp add: checkModuleField_def moduleField_def split: if_splits)

lemma number_inv:
  "checkModuleField s (key, \<lparr>required = True, ftype = Some ''number'', fmin = Some lo, fmax = Some hi,
                   minLength = None, maxLength = None, validator = None\<rparr>) [] = Inr []
   \<Longrightarrow> \<exists>n. moduleField s key = JNum n \<and> real lo \<le> n \<and> n \<le> real hi"
  by (cases "moduleField s key") (auto simp add: checkModuleField_def js_lt_def js_gt_def Let_def split: if_splits)

lemma powerDraw_inv:
  "checkModuleField s (''powerDraw'', \<lparr>required = False, ftype = None, fmin = None, fmax = None,
                       minLength = None, maxLength = None,
                       validator = Some validatePowerDraw\<rparr>) [] = Inr []
   \<Longrightarrow> \<exists>r. validatePowerDraw (spec_powerDraw s) = Inr r \<and> errors r = []"
  by (auto simp add: checkModuleField_def moduleField_def validatePowerDraw_def split: if_splits sum.splits)

lemma validate_inv:
  assumes "validateModuleSpec s = Inr r" "isValid r"
  shows "\<exists>name w h d. spec_name s = JStr name \<and> spec_width s = JNum w \<and> 2 \<le> w \<and> w \<le> 42
     \<and> spec_height s = JNum h \<and> 100 \<le> h \<and> h \<le> 150 \<and> spec_depth s = JNum d \<and> 20 \<le> d \<and> d \<le> 45
     \<and> (\<exists>r. validatePowerDraw (spec_powerDraw s) = Inr r \<and> errors r = [])"
proof -
  from assms have "forEachE (checkModuleField s) moduleSchema [] = Inr []"
    by (auto simp add: validateModuleSpec_def split: sum.splits)
  from forEachE_no_errors[OF checkModuleField_grows this]
  have all: "\<forall>e \<in> set moduleSchema. checkModuleField s e [] = Inr []" by simp
  have n: "\<exists>name. spec_name s = JStr name"
    using all by (intro name_inv) (simp add: moduleSchema_def)
  have w: "\<exists>n. moduleField s ''width'' = JNum n \<and> real 2 \<le> n \<and> n \<le> real 42"
    using all by (intro number_inv) (simp add: moduleSchema_def)
  have h: "\<exists>n. moduleField s ''height'' = JNum n \<and> real 100 \<le> n \<and> n \<le> real 150"
    using all by (intro number_inv) (simp add: moduleSchema_def)
  have d: "\<exists>n. moduleField s ''depth'' = JNum n \<and> real 20 \<le> n \<and> n \<le> real 45"
    using all by (intro number_inv) (simp add: moduleSchema_def)
  have p: "\<exists>r. validatePowerDraw (spec_powerDraw s) = Inr r \<and> errors r = []"
    using all by (intro powerDraw_inv) (simp add: moduleSchema_def)
  from n w h d p show ?thesis by (simp add: moduleField_def)
qed

lemma checkRail_grows: "checkRail pd rail errs = Inr errs' \<Longrightarrow> length errs \<le> length errs'"
  by (auto simp add: checkRail_def Let_def split: if_splits sum.splits)

lemma checkRail_inv:
  "checkRail pd rail [] = Inr [] \<Longrightarrow>
     \<exists>v n. getProp pd rail = Inr v \<and> js_or v (JNum 0) = JNum n \<and> 0 \<le> n \<and> n \<le> 500"
  apply (auto simp add: checkRail_def Let_def js_lt_def js_gt_def split: if_splits sum.splits)
  subgoal for v by (cases "js_or v (JNum 0)") auto
  done

lemma validatePowerDraw_inv:
  assumes "validatePowerDraw pd = Inr r" "errors r = []" "rail \<in> set powerConnectors"
  shows "\<exists>v n. getProp pd rail = Inr v \<and> js_or v (JNum 0) = JNum n \<and> 0 \<le> n \<and> n \<le> 500"
proof -
  from assms(1,2) have run: "forEachE (checkRail pd) powerConnectors [] = Inr []"
    by (auto simp add: validatePowerDraw_def split: sum.splits)
  have grows: "\<And>k errs errs'. checkRail pd k errs = Inr errs' \<Longrightarrow> length errs \<le> length errs'"
    by (rule checkRail_grows)
  from forEachE_no_errors[of "checkRail pd", OF grows run] assms(3)
  have "checkRail pd rail [] = Inr []" by simp
  then show ?thesis by (rule checkRail_inv)
qed

lemma mathRound_int: "mathRound v \<in> \<int>"
  by (simp add: mathRound_def)

lemma mathRound_nearest: "\<bar>mathRound v - v\<bar> \<le> 1 / 2"
  unfolding mathRound_def by linarith

lemma mathRound_bounds: "real_of_int lo \<le> v \<Longrightarrow> v \<le> real_of_int hi \<Longrightarrow> real_of_int lo \<le> mathRound v \<and> mathRound v \<le> real_of_int hi"
  unfolding mathRound_def by (simp add: le_floor_iff floor_le_iff)

section \<open>Module normalization and creation\<close>

lemma trim_trimmed: "trimmed (trim s)"
proof (cases "trim s = []")
  case True
  then show ?thesis by (simp add: trimmed_def)
next
  case False
  define t where "t = dropWhile isWhiteSpace s"
  define r where "r = dropWhile isWhiteSpace (rev t)"
  have tr: "trim s = rev r" by (simp add: trim_def t_def r_def)
  with False have rne: "r \<noteq> []" by simp
  have "rev t = takeWhile isWhiteSpace (rev t) @ r" by (simp add: r_def)
  then have "t = rev r @ rev (takeWhile isWhiteSpace (rev t))"
    by (metis rev_append rev_rev_ident)
  with rne have hd_eq: "hd (rev r) = hd t" and tne: "t \<noteq> []"
    by (metis hd_append2 rev_is_Nil_conv, metis append_is_Nil_conv rev_is_Nil_conv)
  have "\<not> isWhiteSpace (hd t)" using tne unfolding t_def by (rule hd_dropWhile)
  moreover have "\<not> isWhiteSpace (hd r)" using rne unfolding r_def by (rule hd_dropWhile)
  moreover have "last (rev r) = hd r" using rne by (simp add: last_rev)
  ultimately show ?thesis by (simp add: trimmed_def tr hd_eq)
qed

lemma createModule_try_inv:
  assumes "createModule_try s = Inr m"
  shows "\<exists>name w h d pd. spec_name s = JStr name \<and> spec_width s = JNum w \<and> 2 \<le> w \<and> w \<le> 42
     \<and> spec_height s = JNum h \<and> 100 \<le> h \<and> h \<le> 150 \<and> spec_depth s = JNum d \<and> 20 \<le> d \<and> d \<le> 45
     \<and> normalizePowerDraw (spec_powerDraw s) = Inr pd
     \<and> (\<exists>r. validatePowerDraw (spec_powerDraw s) = Inr r \<and> errors r = [])
     \<and> m = \<lparr>m_name = trim name, m_width = mathRound w, m_height = mathRound h,
             m_depth = mathRound d, m_powerDraw = pd,
             m_controls = js_or (spec_controls s) (JArr []),
             m_images = js_or (spec_images s) (JArr []),
             m_hpWidth = Some (mathRound w * hpUnit),
             m_volumeCm3 = Some (mathRound w * hpUnit * mathRound h / 10 * mathRound d / 10)\<rparr>"
proof -
  from assms obtain r where r: "validateModuleSpec s = Inr r" "isValid r"
    by (auto simp add: createModule_try_def split: sum.splits if_splits)
  from validate_inv[OF r] obtain name w h d where
    f: "spec_name s = JStr name" "spec_width s = JNum w" "2 \<le> w" "w \<le> 42"
       "spec_height s = JNum h" "100 \<le> h" "h \<le> 150" "spec_depth s = JNum d" "20 \<le> d" "d \<le> 45"
       "\<exists>r. validatePowerDraw (spec_powerDraw s) = Inr r \<and> errors r = []"
    by blast
  from assms r f(1,2,5,8) obtain pd where pd: "normalizePowerDraw (spec_powerDraw s) = Inr pd"
    by (auto simp add: createModule_try_def normalizeModuleSpec_def split: sum.splits)
  from assms r f(1,2,5,8) pd have "m = \<lparr>m_name = trim name, m_width = mathRound w, m_height = mathRound h,
             m_depth = mathRound d, m_powerDraw = pd,
             m_controls = js_or (spec_controls s) (JArr []),
             m_images = js_or (spec_images s) (JArr []),
             m_hpWidth = Some (mathRound w * hpUnit),
             m_volumeCm3 = Some (mathRound w * hpUnit * mathRound h / 10 * mathRound d / 10)\<rparr>"
    by (auto simp add: createModule_try_def normalizeModuleSpec_def calculateVolume_def Let_def)
  with f pd show ?thesis by blast
qed

lemma normalizePowerDraw_rails:
  assumes "validatePowerDraw pd = Inr r" "errors r = []" "normalizePowerDraw pd = Inr rails"
  shows "map fst rails = powerConnectors
         \<and> (\<forall>entry \<in> set rails. \<exists>n. snd entry = JNum n \<and> 0 \<le> n \<and> n \<le> 500)"
proof (cases "truthy pd")
  case False
  with assms(3) show ?thesis by (auto simp add: normalizePowerDraw_def powerConnectors_def)
next
  case True
  have rail: "\<exists>v n. getProp pd k = Inr v \<and> js_or v (JNum 0) = JNum n \<and> 0 \<le> n \<and> n \<le> 500"
    if "k \<in> set powerConnectors" for k
    using validatePowerDraw_inv[OF assms(1,2) that] .
  from rail[of "''+12V''"] obtain v1 n1 where
    r1: "getProp pd ''+12V'' = Inr v1" "js_or v1 (JNum 0) = JNum n1" "0 \<le> n1" "n1 \<le> 500"
    by (auto simp add: powerConnectors_def)
  from rail[of "''-12V''"] obtain v2 n2 where
    r2: "getProp pd ''-12V'' = Inr v2" "js_or v2 (JNum 0) = JNum n2" "0 \<le> n2" "n2 \<le> 500"
    by (auto simp add: powerConnectors_def)
  from rail[of "''+5V''"] obtain v3 n3 where
    r3: "getProp pd ''+5V'' = Inr v3" "js_or v3 (JNum 0) = JNum n3" "0 \<le> n3" "n3 \<le> 500"
    by (auto simp add: powerConnectors_def)
  from True assms(3) have "rails = [(''+12V'', JNum n1), (''-12V'', JNum n2), (''+5V'', JNum n3)]"
    by (simp add: normalizePowerDraw_def normalizeRail_def r1 r2 r3)
  with r1 r2 r3 show ?thesis by (simp add: powerConnectors_def)
qed

lemma createModule_try_normalized:
  assumes "createModule_try s = Inr m"
  shows "trimmed (m_name m)"
    and "m_width m \<in> \<int> \<and> 2 \<le> m_width m \<and> m_width m \<le> 42"
    and "m_height m \<in> \<int> \<and> 100 \<le> m_height m \<and> m_height m \<le> 150"
    and "m_depth m \<in> \<int> \<and> 20 \<le> m_depth m \<and> m_depth m \<le> 45"
    and "map fst (m_powerDraw m) = powerConnectors"
    and "\<forall>entry \<in> set (m_powerDraw m). \<exists>n. snd entry = JNum n \<and> 0 \<le> n \<and> n \<le> 500"
proof -
  from createModule_try_inv[OF assms] obtain name w h d pd r where
    f: "2 \<le> w" "w \<le> 42" "100 \<le> h" "h \<le> 150" "20 \<le> d" "d \<le> 45"
       "normalizePowerDraw (spec_powerDraw s) = Inr pd"
       "validatePowerDraw (spec_powerDraw s) = Inr r" "errors r = []"
    and m: "m_name m = trim name" "m_width m = mathRound w" "m_height m = mathRound h"
       "m_depth m = mathRound d" "m_powerDraw m = pd"
    by auto
  show "trimmed (m_name m)" by (simp add: m trim_trimmed)
  from mathRound_bounds[of 2 w 42] f show "m_width m \<in> \<int> \<and> 2 \<le> m_width m \<and> m_width m \<le> 42"
    by (simp add: m mathRound_int)
  from mathRound_bounds[of 100 h 150] f show "m_height m \<in> \<int> \<and> 100 \<le> m_height m \<and> m_height m \<le> 150"
    by (simp add: m mathRound_int)
  from mathRound_bounds[of 20 d 45] f show "m_depth m \<in> \<int> \<and> 20 \<le> m_depth m \<and> m_depth m \<le> 45"
    by (simp add: m mathRound_int)
  from normalizePowerDraw_rails[OF f(8,9,7)]
  show "map fst (m_powerDraw m) = powerConnectors"
    and "\<forall>entry \<in> set (m_powerDraw m). \<exists>n. snd entry = JNum n \<and> 0 \<le> n \<and> n \<le> 500"
    by (simp_all add: m)
qed

text \<open>
  C3. Claimed: after normalization of an accepted specification the name is trimmed and
  has a length in \<open>[1, 50]\<close>, the dimensions are rounded and every rail is in
  \<open>[0, 500]\<close>. Lemma \<open>createModule_try_normalized\<close> above proves all of it except the
  length of the name, and that part fails: the schema declares \<open>minLength: 1\<close> and
  \<open>maxLength: 50\<close> for the name, but \<open>_validateModuleSpec\<close> never reads the length rules
  (\<open>_validateProjectSpec\<close> does). A name of one space is accepted and normalized to the
  empty string.
\<close>

theorem createModule_accepts_blank_name:
  "validateModuleSpec blankNameSpec = Inr \<lparr>isValid = True, errors = []\<rparr>
   \<and> (\<exists>m. createModule_try blankNameSpec = Inr m \<and> length (m_name m) = 0)"
  by (simp add: validateModuleSpec_def moduleSchema_def checkModuleField_def moduleField_def
      blankNameSpec_def defaultModuleSpec_def js_lt_def js_gt_def validatePowerDraw_def
      powerConnectors_def checkRail_def createModule_try_def js_or_def normalizeModuleSpec_def
      normalizePowerDraw_def normalizeRail_def trim_def isWhiteSpace_def)

subsection \<open>The unmodelled coercion is never reached\<close>

lemma getProp_error: "getProp v key = Inl e \<Longrightarrow> \<exists>msg. e = TypeError msg"
  by (cases v) auto

lemma checkRail_error: "checkRail v k s = Inl e \<Longrightarrow> \<exists>msg. e = TypeError msg"
proof (cases "getProp v k")
  case (Inl e')
  assume "checkRail v k s = Inl e"
  with Inl have "e' = e" by (simp add: checkRail_def)
  with Inl show ?thesis by (auto dest: getProp_error)
next
  case (Inr x)
  assume "checkRail v k s = Inl e"
  with Inr show ?thesis by (simp add: checkRail_def Let_def split: if_splits)
qed

lemma validatePowerDraw_error: "validatePowerDraw v = Inl e \<Longrightarrow> \<exists>msg. e = TypeError msg"
proof -
  assume a: "validatePowerDraw v = Inl e"
  then have "forEachE (checkRail v) powerConnectors [] = Inl e"
    by (simp add: validatePowerDraw_def split: sum.splits)
  from forEachE_error[of powerConnectors "checkRail v" "\<lambda>e. \<exists>msg. e = TypeError msg", OF checkRail_error this]
  show ?thesis .
qed

lemma checkModuleField_error:
  assumes "checkModuleField s (k, fs) errs = Inl e"
  shows "\<exists>check. validator fs = Some check \<and> check (moduleField s k) = Inl e"
proof (cases "validator fs")
  case None
  with assms show ?thesis by (simp add: checkModuleField_def Let_def split: if_splits)
next
  case (Some check)
  with assms show ?thesis
    by (cases "check (moduleField s k)") (simp_all add: checkModuleField_def Let_def split: if_splits)
qed

lemma validateModuleSpec_error: "validateModuleSpec s = Inl e \<Longrightarrow> \<exists>msg. e = TypeError msg"
proof -
  assume a: "validateModuleSpec s = Inl e"
  have step: "\<exists>msg. e = TypeError msg"
    if "entry \<in> set moduleSchema" "checkModuleField s entry errs = Inl e" for entry errs e
  proof -
    obtain k fs where entry: "entry = (k, fs)" by (cases entry)
    from checkModuleField_error[of s k fs errs e] that(2) entry obtain check
      where c: "validator fs = Some check" "check (moduleField s k) = Inl e" by auto
    from that(1) entry c(1) have "check = validatePowerDraw"
      by (auto simp add: moduleSchema_def)
    with c(2) show ?thesis by (auto dest: validatePowerDraw_error)
  qed
  from a have "forEachE (checkModuleField s) moduleSchema [] = Inl e"
    by (simp add: validateModuleSpec_def split: sum.splits)
  from forEachE_error[of moduleSchema "checkModuleField s" "\<lambda>e. \<exists>msg. e = TypeError msg", OF step this]
  show ?thesis .
qed

lemma normalizePowerDraw_total: "\<exists>rails. normalizePowerDraw v = Inr rails"
  by (cases v) (simp_all add: normalizePowerDraw_def normalizeRail_def)

lemma createModule_try_modelled: "createModule_try s \<noteq> Inl (Unmodelled msg)"
proof
  assume a: "createModule_try s = Inl (Unmodelled msg)"
  show False
  proof (cases "validateModuleSpec s")
    case (Inl e)
    with a have "e = Unmodelled msg" by (simp add: createModule_try_def)
    with validateModuleSpec_error[OF Inl] show False by simp
  next
    case (Inr r)
    show False
    proof (cases "isValid r")
      case False
      with a Inr show False by (simp add: createModule_try_def)
    next
      case True
      from validate_inv[OF Inr True] obtain name w h d where
        f: "spec_name s = JStr name" "spec_width s = JNum w" "spec_height s = JNum h" "spec_depth s = JNum d"
        by blast
      from normalizePowerDraw_total obtain rails
        where "normalizePowerDraw (spec_powerDraw s) = Inr rails" by blast
      with a Inr True f show False
        by (simp add: createModule_try_def normalizeModuleSpec_def)
    qed
  qed
qed

subsection \<open>What creation reads\<close>




lemmas module_eval = validateModuleSpec_def moduleSchema_def checkModuleField_def moduleField_def
      js_lt_def js_gt_def validatePowerDraw_def
      powerConnectors_def checkRail_def createModule_try_def js_or_def normalizeModuleSpec_def
      normalizePowerDraw_def normalizeRail_def trim_def isWhiteSpace_def mathRound_def
      calculateVolume_def createModule_def

lemma createModule_default: "createModule_try defaultModuleSpec = Inr defaultModule"
  by (simp add: module_eval defaultModuleSpec_def defaultModule_def hpUnit_def)

section \<open>Projection to 3D\<close>

text \<open>
  C4. The module of width 4 HP (20.32 mm), height 128.5 and depth 25 with one knob at
  (50, 50): the knob is placed at (0, 0, 13.5), by \<open>create3DModel\<close> (second mesh, after the
  panel) and by the editor's \<open>createModuleModel\<close> (fourth mesh, after panel, PCB and
  housing).
\<close>

theorem centered_knob_position:
  "4 * hpUnit = 20.32
   \<and> map_option (map mesh_position) (fst (create3DModel [] centeredKnobSpec))
       = Some [(0, 0, 0), (0, 0, 13.5)]
   \<and> map_option (map mesh_position) (app_currentModel (createModuleModel centeredKnobApp))
       = Some [(0, 0, 11.5), (0, 0, 2.5), (0, 0, 0), (0, 0, 13.5)]"
  by (simp add: module_eval create3DModel_def centeredKnobSpec_def defaultModuleSpec_def centeredKnob_def
      addControlTo3DModel_def panelMesh_def newMesh_def hpUnit_def centeredKnobApp_def
      createModuleModel_def addControlToModel_def Let_def)

subsection \<open>The service's loop over the controls\<close>






lemma geometryTag_recognized: "geometryTag t = None \<longleftrightarrow> \<not> recognized t"
  by (simp add: geometryTag_def recognized_def)

lemma geometryTag_Some: "geometryTag t = Some geo \<Longrightarrow> recognized t"
  by (simp add: geometryTag_def recognized_def split: if_splits)

lemma placements_recognized:
  "placements w h d (filter (\<lambda>c. recognized (ctl_type c)) cs) = placements w h d cs"
  by (induction cs) (auto simp add: geometryTag_recognized split: option.splits dest: geometryTag_Some)








subsection \<open>The editor's loop over the controls\<close>

lemma addControlToModel_other:
  "app_currentModule (addControlToModel a c w h) = app_currentModule a"
  "app_controls (addControlToModel a c w h) = app_controls a"
  "app_scene (addControlToModel a c w h) = app_scene a"
  by (simp_all add: addControlToModel_def Let_def split: option.splits)




lemma addControlsToModel_frame:
  "app_currentModule (foldl (\<lambda>a c. addControlToModel a c w h) a cs) = app_currentModule a
   \<and> app_controls (foldl (\<lambda>a c. addControlToModel a c w h) a cs) = app_controls a
   \<and> app_scene (foldl (\<lambda>a c. addControlToModel a c w h) a cs) = app_scene a"
  by (induction cs arbitrary: a) (simp_all add: addControlToModel_other)

lemma addControlToModel_reads:
  assumes "app_currentModule a = app_currentModule b" "app_currentModel a = app_currentModel b"
  shows "app_currentModel (addControlToModel a c w h) = app_currentModel (addControlToModel b c w h)"
  using assms by (simp add: addControlToModel_def Let_def split: option.splits)

lemma addControlsToModel_reads:
  assumes "app_currentModule a = app_currentModule b" "app_currentModel a = app_currentModel b"
  shows "app_currentModel (foldl (\<lambda>a c. addControlToModel a c w h) a cs)
           = app_currentModel (foldl (\<lambda>a c. addControlToModel a c w h) b cs)"
  using assms
proof (induction cs arbitrary: a b)
  case Nil
  then show ?case by simp
next
  case (Cons c cs)
  have "app_currentModule (addControlToModel a c w h) = app_currentModule (addControlToModel b c w h)"
    using Cons.prems(1) by (simp add: addControlToModel_other)
  from Cons.IH[OF this addControlToModel_reads[OF Cons.prems]] show ?case by simp
qed

lemma createModuleModel_frame:
  "app_currentModule (createModuleModel a) = app_currentModule a
   \<and> app_controls (createModuleModel a) = app_controls a
   \<and> app_scene (createModuleModel a) = app_scene a"
  by (simp add: createModuleModel_def Let_def addControlsToModel_frame)

lemma createModuleModel_no_scene: "\<not> app_scene a \<Longrightarrow> createModuleModel a = a"
  by (simp add: createModuleModel_def)

lemma createModuleModel_reads:
  assumes "app_currentModule a = app_currentModule b" "app_scene a" "app_scene b"
  shows "app_currentModel (foldl (\<lambda>x c. addControlToModel x c w h)
                              (a\<lparr>app_currentModel := Some g\<rparr>) cs)
           = app_currentModel (foldl (\<lambda>x c. addControlToModel x c w h)
                                (b\<lparr>app_currentModel := Some g\<rparr>) cs)"
  by (rule addControlsToModel_reads) (simp_all add: assms)

lemma createModuleModel_controls:
  assumes "app_currentModule a = app_currentModule b" "app_controls a = app_controls b"
      and "app_scene a" "app_scene b"
  shows "app_currentModel (createModuleModel a) = app_currentModel (createModuleModel b)"
  unfolding createModuleModel_def Let_def
  using createModuleModel_reads[OF assms(1,3,4)] by (simp add: assms)

lemma createModuleModel_idem:
  "app_currentModel (createModuleModel (createModuleModel a)) = app_currentModel (createModuleModel a)"
proof (cases "app_scene a")
  case False
  then show ?thesis by (simp add: createModuleModel_no_scene)
next
  case True
  from createModuleModel_frame[of a] True show ?thesis
    by (intro createModuleModel_controls) simp_all
qed


subsection \<open>Round trip\<close>

lemma percent_roundtrip:
  assumes "W \<noteq> 0" "H \<noteq> 0"
  shows "percentFromPosition W H ((x / 100 * W) - (W / 2), (H / 2) - (y / 100 * H), z) = (x, y)"
  using assms by (simp add: percentFromPosition_def)

lemma addControl_position:
  assumes "recognized (ctl_type c)"
  shows "\<exists>msh. addControlTo3DModel g c m = g @ [msh]
           \<and> mesh_position msh
               = ((ctl_x c / 100 * (m_width m * hpUnit)) - (m_width m * hpUnit / 2),
                  (m_height m / 2) - (ctl_y c / 100 * m_height m),
                  m_depth m / 2 + 1)"
  using assms by (auto simp add: addControlTo3DModel_def recognized_def Let_def)

text \<open>
  C5. For every module that \<open>createModule\<close> returns and every control the projector
  places, the inverse mapping \<open>x% = (posX + widthMm/2) / widthMm * 100\<close>,
  \<open>y% = (heightMm/2 - posY) / heightMm * 100\<close> applied to the position of the placed
  mesh gives back the control's percentage coordinates, exactly over the reals. No bound
  on the coordinates is needed. A created module has a width of at least 2 and a height of
  at least 100 (lemma \<open>createModule_try_normalized\<close>), so the divisions are by nonzero
  numbers; lemma \<open>editor_roundtrip\<close> below is the same for the editor's
  \<open>addControlToModel\<close> with nonzero dimensions.
\<close>

theorem projection_roundtrip:
  assumes "createModule_try spec = Inr m" and "recognized (ctl_type c)"
  shows "\<exists>msh. addControlTo3DModel g c m = g @ [msh]
           \<and> percentFromPosition (m_width m * hpUnit) (m_height m) (mesh_position msh)
               = (ctl_x c, ctl_y c)"
proof -
  from createModule_try_normalized(2,3)[OF assms(1)]
  have w: "m_width m * hpUnit \<noteq> 0" and h: "m_height m \<noteq> 0"
    by (simp_all add: hpUnit_def)
  from addControl_position[OF assms(2), of g m] obtain msh where
    msh: "addControlTo3DModel g c m = g @ [msh]"
    and pos: "mesh_position msh
               = ((ctl_x c / 100 * (m_width m * hpUnit)) - (m_width m * hpUnit / 2),
                  (m_height m / 2) - (ctl_y c / 100 * m_height m),
                  m_depth m / 2 + 1)"
    by blast
  have "percentFromPosition (m_width m * hpUnit) (m_height m) (mesh_position msh)
          = (ctl_x c, ctl_y c)"
    unfolding pos by (rule percent_roundtrip[OF w h])
  with msh show ?thesis by blast
qed

theorem projection_roundtrip_witness:
  "\<exists>msh. addControlTo3DModel [] offCenterJack defaultModule = [] @ [msh]
     \<and> percentFromPosition (m_width defaultModule * hpUnit) (m_height defaultModule)
          (mesh_position msh) = (25, 80)"
  using projection_roundtrip[OF createModule_default, of offCenterJack "[]"]
  by (simp add: recognized_def offCenterJack_def)

lemma addControlToModel_position:
  assumes "recognized (ctl_type c)" "app_currentModel a = Some g"
  shows "\<exists>msh. app_currentModel (addControlToModel a c widthMm heightMm) = Some (g @ [msh])
           \<and> mesh_position msh
               = ((ctl_x c / 100 * widthMm) - (widthMm / 2),
                  (heightMm / 2) - (ctl_y c / 100 * heightMm),
                  am_depth (app_currentModule a) / 2 + 1)"
  using assms by (auto simp add: addControlToModel_def recognized_def Let_def)

lemma editor_roundtrip:
  assumes "widthMm \<noteq> 0" "heightMm \<noteq> 0" "recognized (ctl_type c)" "app_currentModel a = Some g"
  shows "\<exists>msh. app_currentModel (addControlToModel a c widthMm heightMm) = Some (g @ [msh])
           \<and> percentFromPosition widthMm heightMm (mesh_position msh) = (ctl_x c, ctl_y c)"
proof -
  from addControlToModel_position[OF assms(3,4), of widthMm heightMm] obtain msh where
    msh: "app_currentModel (addControlToModel a c widthMm heightMm) = Some (g @ [msh])"
    and pos: "mesh_position msh
               = ((ctl_x c / 100 * widthMm) - (widthMm / 2),
                  (heightMm / 2) - (ctl_y c / 100 * heightMm),
                  am_depth (app_currentModule a) / 2 + 1)"
    by blast
  have "percentFromPosition widthMm heightMm (mesh_position msh) = (ctl_x c, ctl_y c)"
    unfolding pos by (rule percent_roundtrip[OF assms(1,2)])
  with msh show ?thesis by blast
qed

subsection \<open>Unrecognized control types\<close>




subsection \<open>Determinism\<close>










lemma create3DModelOn_output:
  "fst (create3DModelOn rt spec)
     = (case createModuleOn_try (rt_moduleDesign rt) spec of
          Inl e \<Rightarrow> None
        | Inr m \<Rightarrow>
            (case m_controls m of
               JArr cs \<Rightarrow>
                 Some (foldl (\<lambda>g c. addControlTo3DModelOn (rt_moduleDesign rt) g c m)
                         [newMesh (BoxGeometry (m_width m * st_hpUnit (mds_standards (rt_moduleDesign rt)))
                                               (m_height m) 2)
                                  (lambert 0x333333)]
                         cs)
             | _ \<Rightarrow> None))"
proof (cases "createModuleOn_try (rt_moduleDesign rt) spec")
  case (Inl e)
  then show ?thesis by (simp add: create3DModelOn_def createModuleOn_def)
next
  case (Inr m)
  then show ?thesis
    by (cases "m_controls m") (simp_all add: create3DModelOn_def createModuleOn_def)
qed


text \<open>The instance state is no idle parameter: with another \<open>hpUnit\<close> in
  \<open>_standards\<close> the same specification gives another geometry. And a call can change the
  state: a rejected specification leaves two entries in the log.\<close>

lemma instance_state_matters:
  "fst (create3DModelOn
          (startRuntime\<lparr>rt_moduleDesign :=
             newModuleDesignService
               \<lparr>mds_standards := (mds_standards newModuleDesignService)\<lparr>st_hpUnit := 10\<rparr>\<rparr>\<rparr>)
          centeredKnobSpec)
     \<noteq> fst (create3DModelOn startRuntime centeredKnobSpec)"
  by (simp add: create3DModelOn_output startRuntime_def createModuleOn_try_def
      validateModuleSpecOn_def newModuleDesignService_def checkModuleFieldOn_def moduleField_def
      validatePowerDrawOn_def checkRail_def js_lt_def js_gt_def js_or_def centeredKnobSpec_def
      defaultModuleSpec_def normalizeModuleSpec_def normalizePowerDraw_def normalizeRail_def
      calculateVolumeOn_def addControlTo3DModelOn_def centeredKnob_def newMesh_def trim_def
      isWhiteSpace_def mathRound_def)




section \<open>Derived fields\<close>















section \<open>Project validation and update\<close>

lemma typeof_not_array: "typeof v \<noteq> ''array''"
  by (cases v) simp_all

lemma validateModules_grows:
  "validateModules elements index (errs, elog) = (errs', elog') \<Longrightarrow> length errs \<le> length errs'"
proof (induction elements arbitrary: index errs elog)
  case Nil
  then show ?case by simp
next
  case (Cons element rest)
  obtain created elog1 where c: "createModuleOf elog element = (created, elog1)"
    by (cases "createModuleOf elog element")
  show ?case
  proof (cases created)
    case None
    with Cons.prems c have "validateModules rest (Suc index)
        (errs @ [''Invalid module at index '' @ showNat index], elog1) = (errs', elog')"
      by simp
    from Cons.IH[OF this] show ?thesis by simp
  next
    case (Some m)
    with Cons.prems c have "validateModules rest (Suc index) (errs, elog1) = (errs', elog')"
      by simp
    from Cons.IH[OF this] show ?thesis .
  qed
qed

lemma typeof_string: "typeof v = ''string'' \<Longrightarrow> \<exists>s. v = JStr s"
  by (cases v) simp_all

lemma required_entry_missing:
  assumes "required fs" "projectField p key = JUndefined \<or> projectField p key = JNull"
  shows "checkProjectField p (key, fs) acc = Inr (fst acc @ [key @ '' is required''], snd acc)"
  using assms by (simp add: checkProjectField_def)

lemma optional_entry_absent:
  assumes "\<not> required fs" "projectField p key = JUndefined"
  shows "checkProjectField p (key, fs) acc = Inr acc"
  using assms by (simp add: checkProjectField_def)

lemma entry_type_mismatch:
  assumes "projectField p key \<noteq> JUndefined" "required fs \<longrightarrow> projectField p key \<noteq> JNull"
      and "ftype fs = Some t" "typeof (projectField p key) \<noteq> t"
  shows "checkProjectField p (key, fs) acc
           = Inr (fst acc @ [key @ '' must be of type '' @ t], snd acc)"
  using assms by (cases "required fs") (simp_all add: checkProjectField_def Let_def)

lemma modules_entry_rejects:
  assumes "checkProjectField p (''modules'', \<lparr>required = True, ftype = Some ''array'', fmin = None,
              fmax = None, minLength = Some 1, maxLength = None, validator = None\<rparr>) acc = Inr acc'"
  shows "length (fst acc) < length (fst acc')"
proof -
  let ?fs = "\<lparr>required = True, ftype = Some ''array'', fmin = None,
              fmax = None, minLength = Some 1, maxLength = None,
              validator = (None :: (pval \<Rightarrow> js_error + validation_result) option)\<rparr>"
  show ?thesis
  proof (cases "projectField p ''modules'' = JUndefined \<or> projectField p ''modules'' = JNull")
    case True
    have "checkProjectField p (''modules'', ?fs) acc
            = Inr (fst acc @ [''modules'' @ '' is required''], snd acc)"
      by (rule required_entry_missing[OF _ True]) simp
    with assms show ?thesis by auto
  next
    case False
    have "checkProjectField p (''modules'', ?fs) acc
            = Inr (fst acc @ [''modules'' @ '' must be of type '' @ ''array''], snd acc)"
      by (rule entry_type_mismatch) (use False typeof_not_array in simp_all)
    with assms show ?thesis by auto
  qed
qed

lemma text_entry_grows:
  assumes "checkProjectField p (key, \<lparr>required = req, ftype = Some ''string'', fmin = None,
              fmax = None, minLength = lo, maxLength = hi, validator = None\<rparr>) acc = Inr acc'"
      and "key \<noteq> ''modules''"
  shows "length (fst acc) \<le> length (fst acc')"
proof -
  let ?fs = "\<lparr>required = req, ftype = Some ''string'', fmin = None, fmax = None,
              minLength = lo, maxLength = hi,
              validator = (None :: (pval \<Rightarrow> js_error + validation_result) option)\<rparr>"
  let ?v = "projectField p key"
  consider (missing) "req \<and> (?v = JUndefined \<or> ?v = JNull)"
    | (absent) "\<not> req \<and> ?v = JUndefined"
    | (mismatch) "?v \<noteq> JUndefined \<and> (req \<longrightarrow> ?v \<noteq> JNull) \<and> typeof ?v \<noteq> ''string''"
    | (str) s where "?v = JStr s"
    using typeof_string[of ?v] by (cases req) auto
  then show ?thesis
  proof cases
    case missing
    from required_entry_missing[of ?fs p key acc] missing assms(1) show ?thesis by auto
  next
    case absent
    from optional_entry_absent[of ?fs p key acc] absent assms(1) show ?thesis by auto
  next
    case mismatch
    from entry_type_mismatch[of p key ?fs "''string''" acc] mismatch assms(1) show ?thesis by auto
  next
    case (str s)
    define errs1 where "errs1 = (case lo of Some l \<Rightarrow> if l \<noteq> 0 \<and> length s < l
        then fst acc @ [key @ '' must be at least '' @ showNat l @ '' characters''] else fst acc
        | None \<Rightarrow> fst acc)"
    define errs2 where "errs2 = (case hi of Some h \<Rightarrow> if h \<noteq> 0 \<and> length s > h
        then errs1 @ [key @ '' must be at most '' @ showNat h @ '' characters''] else errs1
        | None \<Rightarrow> errs1)"
    have "checkProjectField p (key, ?fs) acc = Inr (errs2, snd acc)"
      by (simp add: checkProjectField_def str assms(2) Let_def errs1_def errs2_def
          split: option.splits)
    with assms(1) have acc': "acc' = (errs2, snd acc)" by simp
    have "length (fst acc) \<le> length errs1" by (simp add: errs1_def split: option.splits)
    also have "\<dots> \<le> length errs2" by (simp add: errs2_def split: option.splits)
    finally show ?thesis by (simp add: acc')
  qed
qed

lemma unruled_entry_keeps:
  assumes "key \<noteq> ''modules''"
      and "checkProjectField p (key, \<lparr>required = False, ftype = None, fmin = None, fmax = None,
              minLength = None, maxLength = None, validator = None\<rparr>) acc = Inr acc'"
  shows "acc' = acc"
  using assms by (auto simp add: checkProjectField_def Let_def split: if_splits)

lemma projectSchema_grows:
  assumes "entry \<in> set projectSchema" "checkProjectField p entry acc = Inr acc'"
  shows "length (fst acc) \<le> length (fst acc')"
proof -
  from assms(1) consider
      "entry = (''name'', \<lparr>required = True, ftype = Some ''string'', fmin = None,
              fmax = None, minLength = Some 1, maxLength = Some 100, validator = None\<rparr>)"
    | "entry = (''description'', \<lparr>required = False, ftype = Some ''string'',
              fmin = None, fmax = None, minLength = None, maxLength = Some 500,
              validator = None\<rparr>)"
    | "entry = (''modules'', \<lparr>required = True, ftype = Some ''array'', fmin = None,
              fmax = None, minLength = Some 1, maxLength = None, validator = None\<rparr>)"
    | "entry = (''rack'', \<lparr>required = False, ftype = None, fmin = None, fmax = None,
              minLength = None, maxLength = None, validator = None\<rparr>)"
    | "entry = (''metadata'', \<lparr>required = False, ftype = None, fmin = None, fmax = None,
              minLength = None, maxLength = None, validator = None\<rparr>)"
    unfolding projectSchema_def by fastforce
  then show ?thesis
  proof cases
    case 1
    with assms(2) text_entry_grows[of p "''name''" True "Some 1" "Some 100" acc acc']
    show ?thesis by simp
  next
    case 2
    with assms(2) text_entry_grows[of p "''description''" False None "Some 500" acc acc']
    show ?thesis by simp
  next
    case 3
    with assms(2) modules_entry_rejects[of p acc acc'] show ?thesis by simp
  next
    case 4
    with assms(2) unruled_entry_keeps[of "''rack''" p acc acc'] show ?thesis by simp
  next
    case 5
    with assms(2) unruled_entry_keeps[of "''metadata''" p acc acc'] show ?thesis by simp
  qed
qed

lemma validateProjectSpec_rejects:
  assumes "validateProjectSpec elog p = Inr (r, elog')"
  shows "\<not> isValid r"
proof -
  let ?modules = "(''modules'', \<lparr>required = True, ftype = Some ''array'', fmin = None,
              fmax = None, minLength = Some 1, maxLength = None,
              validator = (None :: (pval \<Rightarrow> js_error + validation_result) option)\<rparr>)"
  show ?thesis
  proof (cases "forEachE (checkProjectField p) projectSchema ([], elog)")
    case (Inl thrown)
    with assms show ?thesis by (simp add: validateProjectSpec_def)
  next
    case (Inr final)
    obtain errs elog1 where final: "final = (errs, elog1)" by (cases final)
    from assms Inr final have r: "r = \<lparr>isValid = (length errs = 0), errors = errs\<rparr>"
      by (simp add: validateProjectSpec_def)
    have mem: "?modules \<in> set projectSchema" unfolding projectSchema_def by simp
    have "length (fst ([] :: string list, elog)) < length (fst final)"
    proof (rule forEachE_strict[of projectSchema "checkProjectField p" "\<lambda>s. length (fst s)"
                                  ?modules "([], elog)" final, OF _ mem _ Inr])
      fix k s s'
      assume "k \<in> set projectSchema" "checkProjectField p k s = Inr s'"
      then show "length (fst s) \<le> length (fst s')" by (rule projectSchema_grows)
    next
      fix s s'
      assume "checkProjectField p ?modules s = Inr s'"
      then show "length (fst s) < length (fst s')" by (rule modules_entry_rejects)
    qed
    with final have "errs \<noteq> []" by simp
    with r show ?thesis by simp
  qed
qed

text \<open>
  No update succeeds. The object \<open>updateProject\<close> builds does carry
  \<open>(version || 0) + 1\<close> and the current time (lemma \<open>mergeUpdates_metadata\<close>), but
  \<open>_validateProjectSpec\<close> compares \<open>typeof value\<close> with the schema's type \<open>'array'\<close> for
  \<open>modules\<close>, and \<open>typeof\<close> never yields \<open>'array'\<close>: a project with modules is rejected
  with \<open>modules must be of type array\<close>, one without with \<open>modules is required\<close> (lemma
  \<open>validateProjectSpec_rejects\<close>). So \<open>updateProject\<close> returns \<open>null\<close> on every input,
  and \<open>createProject\<close> does too. A statement about the project an update returns when it
  succeeds (C7) therefore has no instance on this code: it holds of it only for want of
  a successful update, and nothing here proves or refutes it.
\<close>

lemma updateProject_never_succeeds:
  "fst (updateProject now st projectId updates) = None"
proof (cases "getProjectById st projectId")
  case (Pair found st1)
  show ?thesis
  proof (cases found)
    case None
    with Pair show ?thesis by (simp add: updateProject_def)
  next
    case (Some proj)
    show ?thesis
    proof (cases "mergeUpdates now proj updates")
      case (Inl e)
      with Pair Some show ?thesis by (simp add: updateProject_def)
    next
      case (Inr updatedProject)
      show ?thesis
      proof (cases "validateProjectSpec (errorLog st1) updatedProject")
        case (Inl thrown)
        with Pair Some Inr show ?thesis
          by (cases thrown) (simp add: updateProject_def)
      next
        case (Inr result)
        obtain r elog1 where res: "result = (r, elog1)" by (cases result)
        from validateProjectSpec_rejects[of "errorLog st1" updatedProject r elog1] Inr res
        have "\<not> isValid r" by simp
        with Pair Some \<open>mergeUpdates now proj updates = Inr updatedProject\<close> Inr res
        show ?thesis by (simp add: updateProject_def)
      qed
    qed
  qed
qed

lemma createProject_never_succeeds:
  "fst (createProject now newId st projectSpec) = None"
proof (cases "validateProjectSpec (errorLog st) projectSpec")
  case (Inl thrown)
  then show ?thesis by (cases thrown) (simp add: createProject_def)
next
  case (Inr result)
  obtain r elog1 where res: "result = (r, elog1)" by (cases result)
  from validateProjectSpec_rejects[of "errorLog st" projectSpec r elog1] Inr res
  have "\<not> isValid r" by simp
  with Inr res show ?thesis by (simp add: createProject_def)
qed

text \<open>The stored project \<open>prj_a\<close> and the renaming updates: the update is rejected for
  its modules.\<close>

lemma updateProject_example:
  "updateProject 2000 storedState ''prj_a'' renameUpdates
     = (None,
        storedState
          \<lparr>projectCache := [Some ''prj_a'' \<mapsto> storedProject ''prj_a'' 1000],
           errorLog := [(''Project Update'',
                         Error ''Invalid project updates: modules must be of type array'')]\<rparr>)"
  by (simp add: updateProject_def getProjectById_def getStoredProjects_def storedState_def
      storedProject_def renameUpdates_def mergeUpdates_def validateProjectSpec_def
      projectSchema_def checkProjectField_def projectField_def logError_def handleError_def
      nextVersion_def Let_def)

section \<open>Listing projects\<close>

lemma sort_key_descending:
  "sorted_wrt (\<lambda>a b. f b \<le> f a) (sort_key (\<lambda>p. - f p) ps)" for f :: "'a \<Rightarrow> real"
proof -
  have "sorted (map (\<lambda>p. - f p) (sort_key (\<lambda>p. - f p) ps))" by (rule sorted_sort_key)
  then show ?thesis by (simp add: sorted_map)
qed

lemma getProjects_sorted_always:
  "sorted_wrt (\<lambda>a b. updatedAtOf b \<le> updatedAtOf a) (fst (getProjects st))"
  by (auto simp add: getProjects_def getStoredProjects_def sortByUpdatedAt_def sort_key_descending
      split: stored.splits)

text \<open>
  C10. For a stored array of projects, each with its metadata, \<open>getProjects\<close> returns
  the same projects (as a multiset) ordered by \<open>metadata.updatedAt\<close>, the most recently
  updated first, and changes no state. Lemma \<open>getProjects_sorted_always\<close> above gives the
  order for every storage, where a failure yields the empty list.
\<close>

theorem getProjects_sorted_descending:
  assumes "storage st = Projects ps" and "\<forall>p \<in> set ps. p_metadata p \<noteq> None"
  shows "mset (fst (getProjects st)) = mset ps
         \<and> sorted_wrt (\<lambda>a b. updatedAtOf b \<le> updatedAtOf a) (fst (getProjects st))
         \<and> snd (getProjects st) = st"
proof -
  from assms have "getProjects st = (sort_key (\<lambda>p. - updatedAtOf p) ps, st)"
    by (auto simp add: getProjects_def getStoredProjects_def sortByUpdatedAt_def)
  then show ?thesis by (simp add: sort_key_descending)
qed

theorem getProjects_sorted_descending_witness:
  "mset (fst (getProjects storedState))
     = mset [storedProject ''prj_a'' 1000, storedProject ''prj_b'' 3000,
             storedProject ''prj_c'' 2000]
   \<and> sorted_wrt (\<lambda>a b. updatedAtOf b \<le> updatedAtOf a) (fst (getProjects storedState))
   \<and> snd (getProjects storedState) = storedState"
  using getProjects_sorted_descending
          [of storedState "[storedProject ''prj_a'' 1000, storedProject ''prj_b'' 3000,
                            storedProject ''prj_c'' 2000]"]
  by (simp add: storedState_def storedProject_def)

lemma getProjects_example:
  "fst (getProjects storedState)
     = [storedProject ''prj_b'' 3000, storedProject ''prj_c'' 2000, storedProject ''prj_a'' 1000]"
  by (simp add: getProjects_def getStoredProjects_def sortByUpdatedAt_def storedState_def
      storedProject_def updatedAtOf_def)

end
